theory Spec2Isabelle
  imports Main
begin

section \<open>Strings as the services use them\<close>

text \<open>
  The retry loops of \<^verbatim>\<open>imageGen.js\<close> and \<^verbatim>\<open>videoGen.js\<close> classify a caught error by
  searching its message with \<^verbatim>\<open>String.prototype.includes\<close>, and they build messages with
  template literals that print the numeric HTTP status in decimal. Both are modelled on
  \<open>string\<close>.
\<close>

fun starts_with :: "string \<Rightarrow> string \<Rightarrow> bool" where
  "starts_with s [] = True"
| "starts_with [] (c # cs) = False"
| "starts_with (x # xs) (c # cs) = (x = c \<and> starts_with xs cs)"

fun js_includes :: "string \<Rightarrow> string \<Rightarrow> bool" where
  "js_includes [] n = (n = [])"
| "js_includes (x # xs) n = (starts_with (x # xs) n \<or> js_includes xs n)"

definition digit_char :: "nat \<Rightarrow> char" where
  "digit_char d = ''0123456789'' ! d"

fun decimal :: "nat \<Rightarrow> string" where
  "decimal n = (if n < 10 then [digit_char n] else decimal (n div 10) @ [digit_char (n mod 10)])"

declare decimal.simps [simp del]

text \<open>
  The template the three HTTP error messages share, for example
  \<^verbatim>\<open>`NanoBanana API error (${response.status}): ${errorText}`\<close>.
\<close>

definition http_error :: "string \<Rightarrow> nat \<Rightarrow> string \<Rightarrow> string" where
  "http_error what st detail = what @ '' ('' @ decimal st @ ''): '' @ detail"

section \<open>What one network round trip can yield\<close>

text \<open>
  \<^verbatim>\<open>await fetch(...)\<close> either rejects with an \<^verbatim>\<open>Error\<close> (only its message is
  ever inspected) or resolves to a response. Of a response the code reads the numeric
  \<^verbatim>\<open>status\<close>, the body text (\<^verbatim>\<open>text()\<close>) and the parsed body (\<^verbatim>\<open>json()\<close>, which
  throws when the body is not JSON: \<open>Inl\<close> carries that error's message). Reading the
  body text of a response that has arrived is taken to succeed.
\<close>

record 'd response =
  status :: nat
  text_body :: string
  json_body :: "string + 'd"

datatype 'd fetch_result = Rejected string | Resolved "'d response"

definition ok :: "'d response \<Rightarrow> bool" where
  "ok r = (200 \<le> status r \<and> status r \<le> 299)"

text \<open>JavaScript truthiness of an optional string, and \<^verbatim>\<open>a || b\<close> on such values.\<close>

fun truthy :: "string option \<Rightarrow> bool" where
  "truthy None = False"
| "truthy (Some s) = (s \<noteq> [])"

definition js_or :: "string option \<Rightarrow> string option \<Rightarrow> string option" where
  "js_or a b = (if truthy a then a else b)"

text \<open>\<^verbatim>\<open>data.meta?.usage?.credits_used || 0\<close>: an absent count, like a zero one, is 0.\<close>

definition credits_or_zero :: "int option \<Rightarrow> int" where
  "credits_or_zero c = (case c of None \<Rightarrow> 0 | Some n \<Rightarrow> n)"

section \<open>The retry schedule shared by both services\<close>

definition MAX_RETRIES :: nat where
  "MAX_RETRIES = 3"

definition RETRY_DELAYS :: "nat list" where
  "RETRY_DELAYS = [5000, 15000, 30000]"

text \<open>\<^verbatim>\<open>RETRY_DELAYS[attempt - 1] || 30000\<close>: out of range reads are \<^verbatim>\<open>undefined\<close>.\<close>

definition retry_delay :: "nat \<Rightarrow> nat" where
  "retry_delay i =
     (if i < length RETRY_DELAYS \<and> RETRY_DELAYS ! i \<noteq> 0 then RETRY_DELAYS ! i else 30000)"

text \<open>The sleep at the head of an iteration, appended to the log of delays slept so far.\<close>

definition backoff :: "nat \<Rightarrow> nat list \<Rightarrow> nat list" where
  "backoff attempt slept = (if attempt > 0 then slept @ [retry_delay (attempt - 1)] else slept)"

text \<open>
  How one pass through the body of a retry loop ends: the function returns, the
  \<^verbatim>\<open>continue\<close> of the 5xx branch is taken with a new \<^verbatim>\<open>lastError\<close> (the \<^verbatim>\<open>catch\<close>
  block is skipped), or an error is thrown inside \<^verbatim>\<open>try\<close> and reaches \<^verbatim>\<open>catch\<close>.
\<close>

datatype 'r tried = Returned 'r | ServerError string | Caught string

record 'r retried =
  result :: "string + 'r"
  attempts :: nat
  slept :: "nat list"

section \<open>server/services/imageGen.js\<close>

text \<open>
  The fields \<^verbatim>\<open>generateScene\<close> reads from the parsed body: \<^verbatim>\<open>data.data[0]\<close> (when
  \<^verbatim>\<open>data.data\<close> and its first element are truthy) with its \<^verbatim>\<open>url\<close> and \<^verbatim>\<open>b64_json\<close>,
  \<^verbatim>\<open>data.images[0]\<close> with its \<^verbatim>\<open>url\<close>, the top-level \<^verbatim>\<open>url\<close>, and the usage count.
\<close>

record scene_data =
  data0 :: "(string option \<times> string option) option"
  images0 :: "string option option"
  top_url :: "string option"
  scene_credits_used :: "int option"

record scene_result =
  imageUrl :: string
  creditsUsed :: int

definition extract_image_url :: "scene_data \<Rightarrow> string option" where
  "extract_image_url d =
     (case data0 d of
        Some (u, b) \<Rightarrow> js_or u b
      | None \<Rightarrow>
          (case images0 d of
             Some u \<Rightarrow> u
           | None \<Rightarrow> (if truthy (top_url d) then top_url d else None)))"

definition scene_try :: "scene_data fetch_result \<Rightarrow> scene_result tried" where
  "scene_try f =
     (case f of
        Rejected m \<Rightarrow> Caught m
      | Resolved r \<Rightarrow>
          if status r \<ge> 500 then
            ServerError (http_error ''NanoBanana API error'' (status r) ''Server error'')
          else if \<not> ok r then
            Caught (http_error ''NanoBanana API error'' (status r) (text_body r))
          else
            (case json_body r of
               Inl m \<Rightarrow> Caught m
             | Inr d \<Rightarrow>
                 (case extract_image_url d of
                    Some u \<Rightarrow>
                      if u \<noteq> [] then
                        Returned \<lparr>imageUrl = u, creditsUsed = credits_or_zero (scene_credits_used d)\<rparr>
                      else Caught ''No image URL found in API response''
                  | None \<Rightarrow> Caught ''No image URL found in API response'')))"

function scene_loop ::
  "(nat \<Rightarrow> scene_data fetch_result) \<Rightarrow> nat \<Rightarrow> string option \<Rightarrow> nat list \<Rightarrow> scene_result retried"
where
  "scene_loop env attempt lastError sl =
     (if attempt \<le> MAX_RETRIES then
        (case scene_try (env attempt) of
           Returned r \<Rightarrow>
             \<lparr>result = Inr r, attempts = Suc attempt, slept = backoff attempt sl\<rparr>
         | ServerError e \<Rightarrow> scene_loop env (Suc attempt) (Some e) (backoff attempt sl)
         | Caught e \<Rightarrow>
             if js_includes e ''API error (4'' then
               \<lparr>result = Inl e, attempts = Suc attempt, slept = backoff attempt sl\<rparr>
             else scene_loop env (Suc attempt) (Some e) (backoff attempt sl))
      else
        \<lparr>result = Inl (case lastError of Some e \<Rightarrow> e
                         | None \<Rightarrow> ''Scene generation failed after retries''),
         attempts = attempt, slept = sl\<rparr>)"
  by pat_completeness auto
termination
  by (relation "measure (\<lambda>(env, attempt, lastError, sl). Suc MAX_RETRIES - attempt)") auto

declare scene_loop.simps [simp del]

text \<open>
  \<^verbatim>\<open>generateScene\<close>: the environment gives the outcome of the fetch of each attempt,
  numbered from 0. The portraits, the prompt and the key only shape the request body.
\<close>

definition generateScene :: "(nat \<Rightarrow> scene_data fetch_result) \<Rightarrow> scene_result retried" where
  "generateScene env = scene_loop env 0 None []"

section \<open>server/services/videoGen.js\<close>

definition POLL_INTERVAL_MS :: nat where
  "POLL_INTERVAL_MS = 10000"

definition TIMEOUT_MS :: nat where
  "TIMEOUT_MS = 5 * 60 * 1000"

text \<open>
  Step 1 reads \<^verbatim>\<open>createData.id\<close> from the parsed body of the create call. A poll reads
  \<^verbatim>\<open>status\<close>, \<^verbatim>\<open>video?.url\<close>, \<^verbatim>\<open>meta?.usage?.credits_used\<close> and \<^verbatim>\<open>error?.message\<close>.
\<close>

record create_data =
  task_id :: "string option"

record poll_data =
  job_status :: string
  video_url :: "string option"
  poll_credits_used :: "int option"
  error_message :: "string option"

record video_result =
  videoUrl :: string
  generationId :: string
  videoCreditsUsed :: int

definition create_try :: "create_data fetch_result \<Rightarrow> string tried" where
  "create_try f =
     (case f of
        Rejected m \<Rightarrow> Caught m
      | Resolved r \<Rightarrow>
          if status r \<ge> 500 then
            ServerError (http_error ''Veo 3.1 create error'' (status r) ''Server error'')
          else if \<not> ok r then
            Caught (http_error ''Veo 3.1 create error'' (status r) (text_body r))
          else
            (case json_body r of
               Inl m \<Rightarrow> Caught m
             | Inr d \<Rightarrow>
                 (case task_id d of
                    Some g \<Rightarrow>
                      if g \<noteq> [] then Returned g
                      else Caught ''No generation ID received from Veo 3.1 API''
                  | None \<Rightarrow> Caught ''No generation ID received from Veo 3.1 API'')))"

function create_loop ::
  "(nat \<Rightarrow> create_data fetch_result) \<Rightarrow> nat \<Rightarrow> string option \<Rightarrow> nat list \<Rightarrow> string retried"
where
  "create_loop env attempt lastError sl =
     (if attempt \<le> MAX_RETRIES then
        (case create_try (env attempt) of
           Returned g \<Rightarrow>
             \<lparr>result = Inr g, attempts = Suc attempt, slept = backoff attempt sl\<rparr>
         | ServerError e \<Rightarrow> create_loop env (Suc attempt) (Some e) (backoff attempt sl)
         | Caught e \<Rightarrow>
             if js_includes e ''error (4'' then
               \<lparr>result = Inl e, attempts = Suc attempt, slept = backoff attempt sl\<rparr>
             else create_loop env (Suc attempt) (Some e) (backoff attempt sl))
      else
        \<lparr>result = Inl (case lastError of Some e \<Rightarrow> e
                         | None \<Rightarrow> ''Video creation failed after retries''),
         attempts = attempt, slept = sl\<rparr>)"
  by pat_completeness auto
termination
  by (relation "measure (\<lambda>(env, attempt, lastError, sl). Suc MAX_RETRIES - attempt)") auto

declare create_loop.simps [simp del]

text \<open>
  One pass through the body of the polling loop. The \<^verbatim>\<open>try\<close> block either returns the
  video, falls through or \<^verbatim>\<open>continue\<close>s with a new value of \<^verbatim>\<open>consecutivePollErrors\<close>,
  or throws; what it throws is caught by the \<^verbatim>\<open>catch\<close> block of the same iteration,
  the 5-in-a-row error of the 5xx branch included.
\<close>

text \<open>\<^verbatim>\<open>pollData.error?.message || 'Unknown error'\<close>\<close>

definition message_or_unknown :: "string option \<Rightarrow> string" where
  "message_or_unknown m =
     (case m of Some e \<Rightarrow> (if e \<noteq> [] then e else ''Unknown error'') | None \<Rightarrow> ''Unknown error'')"

datatype poll_tried = PReturned video_result | PNext nat | PCaught string nat

datatype poll_step = Done video_result | Thrown string | Again nat

definition poll_try :: "poll_data fetch_result \<Rightarrow> string \<Rightarrow> nat \<Rightarrow> poll_tried" where
  "poll_try f gid errs =
     (case f of
        Rejected m \<Rightarrow> PCaught m errs
      | Resolved r \<Rightarrow>
          if status r \<ge> 500 then
            (if Suc errs \<ge> 5 then
               PCaught ''Veo 3.1 polling failed after 5 consecutive server errors'' (Suc errs)
             else PNext (Suc errs))
          else if \<not> ok r then
            PCaught (http_error ''Veo 3.1 poll error'' (status r) (text_body r)) errs
          else
            (case json_body r of
               Inl m \<Rightarrow> PCaught m 0
             | Inr d \<Rightarrow>
                 if job_status d = ''completed'' then
                   (case video_url d of
                      Some u \<Rightarrow>
                        if u \<noteq> [] then
                          PReturned \<lparr>videoUrl = u, generationId = gid,
                                     videoCreditsUsed = credits_or_zero (poll_credits_used d)\<rparr>
                        else PCaught ''Video completed but no URL found in response'' 0
                    | None \<Rightarrow> PCaught ''Video completed but no URL found in response'' 0)
                 else if job_status d = ''failed'' \<or> job_status d = ''error'' then
                   PCaught (''Video generation failed: '' @ message_or_unknown (error_message d)) 0
                 else PNext 0))"

definition poll_catch :: "string \<Rightarrow> nat \<Rightarrow> poll_step" where
  "poll_catch m errs =
     (if js_includes m ''poll error'' \<and> \<not> js_includes m ''server errors'' then Thrown m
      else if js_includes m ''failed'' \<or> js_includes m ''completed'' then Thrown m
      else if Suc errs \<ge> 5 then Thrown m
      else Again (Suc errs))"

definition poll_once :: "poll_data fetch_result \<Rightarrow> string \<Rightarrow> nat \<Rightarrow> poll_step" where
  "poll_once f gid errs =
     (case poll_try f gid errs of
        PReturned v \<Rightarrow> Done v
      | PNext errs' \<Rightarrow> Again errs'
      | PCaught m errs' \<Rightarrow> poll_catch m errs')"

text \<open>\<^verbatim>\<open>`Video generation timed out after ${TIMEOUT_MS / 1000}s`\<close>\<close>

definition timeout_error :: string where
  "timeout_error = ''Video generation timed out after '' @ decimal (TIMEOUT_MS div 1000) @ ''s''"

text \<open>
  The polling loop on a logical clock in milliseconds, counted from \<^verbatim>\<open>startTime\<close>:
  \<open>elapsed\<close> is \<^verbatim>\<open>Date.now() - startTime\<close> at the loop head. An iteration sleeps
  \<open>POLL_INTERVAL_MS\<close>, issues poll number \<open>k\<close> (the polls are numbered from 0 in the
  order they are issued) and gets its outcome \<open>env k\<close> after \<open>lat k\<close> more
  milliseconds. \<open>issued\<close> logs the elapsed time at which each poll was issued. The
  sleep takes exactly \<open>POLL_INTERVAL_MS\<close>; the \<^verbatim>\<open>onStatus\<close> callback and the console
  output do not influence the control flow and are left out.
\<close>

record polled =
  outcome :: "string + video_result"
  poll_times :: "nat list"

function poll_loop ::
  "(nat \<Rightarrow> poll_data fetch_result) \<Rightarrow> (nat \<Rightarrow> nat) \<Rightarrow> string \<Rightarrow> nat \<Rightarrow> nat \<Rightarrow> nat list \<Rightarrow> polled"
where
  "poll_loop env lat gid elapsed errs issued =
     (if elapsed < TIMEOUT_MS then
        (case poll_once (env (length issued)) gid errs of
           Done v \<Rightarrow>
             \<lparr>outcome = Inr v, poll_times = issued @ [elapsed + POLL_INTERVAL_MS]\<rparr>
         | Thrown m \<Rightarrow>
             \<lparr>outcome = Inl m, poll_times = issued @ [elapsed + POLL_INTERVAL_MS]\<rparr>
         | Again errs' \<Rightarrow>
             poll_loop env lat gid (elapsed + POLL_INTERVAL_MS + lat (length issued)) errs'
               (issued @ [elapsed + POLL_INTERVAL_MS]))
      else
        \<lparr>outcome = Inl timeout_error, poll_times = issued\<rparr>)"
  by pat_completeness auto
termination
  by (relation "measure (\<lambda>(env, lat, gid, elapsed, errs, issued). TIMEOUT_MS - elapsed)")
     (auto simp: POLL_INTERVAL_MS_def)

declare poll_loop.simps [simp del]

text \<open>
  \<^verbatim>\<open>generateVideo\<close>: step 1 under the retry schedule, then the polling loop, entered
  with a fresh clock and \<^verbatim>\<open>consecutivePollErrors = 0\<close>.
\<close>

record video_run =
  video_outcome :: "string + video_result"
  create_attempts :: nat
  create_slept :: "nat list"
  video_poll_times :: "nat list"

definition generateVideo ::
  "(nat \<Rightarrow> create_data fetch_result) \<Rightarrow> (nat \<Rightarrow> poll_data fetch_result) \<Rightarrow> (nat \<Rightarrow> nat) \<Rightarrow> video_run"
where
  "generateVideo cenv penv lat =
     (let c = create_loop cenv 0 None [] in
      case result c of
        Inl e \<Rightarrow>
          \<lparr>video_outcome = Inl e, create_attempts = attempts c, create_slept = slept c,
           video_poll_times = []\<rparr>
      | Inr gid \<Rightarrow>
          (let p = poll_loop penv lat gid 0 0 [] in
           \<lparr>video_outcome = outcome p, create_attempts = attempts c, create_slept = slept c,
            video_poll_times = poll_times p\<rparr>))"

section \<open>The credit ledger of the API server\<close>

text \<open>
  The server keeps \<^verbatim>\<open>creditsUsedTotal\<close> in memory and mirrors it in \<^verbatim>\<open>credits.json\<close>.
  The file is modelled by what \<^verbatim>\<open>JSON.parse(fs.readFileSync(...))\<close> makes of it: it is
  absent, or reading or parsing it throws, or it holds a JSON document. Writing the file
  is taken to succeed.

  Credit amounts are integer-valued JavaScript numbers, that is IEEE doubles, and
  \<^verbatim>\<open>creditsUsedTotal += result.creditsUsed\<close> is the addition of doubles: the exact sum
  rounded to the nearest number with a 53-bit significand, ties to the even one. An
  integer of magnitude up to \<open>2 ^ 53\<close> is such a number; above, \<open>excess\<close> low bits
  are rounded away. (Sums of magnitude \<open>2 ^ 1024\<close> and more, which JavaScript turns
  into \<^verbatim>\<open>Infinity\<close>, are outside the model.)
\<close>

function excess :: "nat \<Rightarrow> nat" where
  "excess m = (if m < 2 ^ 53 then 0 else Suc (excess (m div 2)))"
  by pat_completeness auto
termination
  by (relation "measure (\<lambda>m. m)") auto

declare excess.simps [simp del]

definition round_even :: "nat \<Rightarrow> nat" where
  "round_even m =
     (let q = 2 ^ excess m; lo = m div q; r = m mod q in
      if 2 * r > q \<or> (2 * r = q \<and> odd lo) then (lo + 1) * q else lo * q)"

definition to_double :: "int \<Rightarrow> int" where
  "to_double x = (if x < 0 then - int (round_even (nat (- x))) else int (round_even (nat x)))"

definition js_add :: "int \<Rightarrow> int \<Rightarrow> int" where
  "js_add a b = to_double (a + b)"

datatype json =
    JNull
  | JBool bool
  | JNum int
  | JStr string
  | JArr "json list"
  | JObj "(string \<times> json) list"

datatype store = Absent | Unreadable | Document json

text \<open>Property access on a parsed value (the last of several equal keys wins).\<close>

fun get_prop :: "json \<Rightarrow> string \<Rightarrow> json option" where
  "get_prop (JObj kvs) k = map_of (rev kvs) k"
| "get_prop v k = None"

fun js_truthy :: "json \<Rightarrow> bool" where
  "js_truthy JNull = False"
| "js_truthy (JBool b) = b"
| "js_truthy (JNum n) = (n \<noteq> 0)"
| "js_truthy (JStr s) = (s \<noteq> [])"
| "js_truthy (JArr xs) = True"
| "js_truthy (JObj kvs) = True"

definition STARTING_CREDITS :: int where
  "STARTING_CREDITS = 20000000"

text \<open>
  \<^verbatim>\<open>loadCredits\<close>: \<^verbatim>\<open>data.creditsUsed || 0\<close> when the file exists and parses; every
  exception (\<^verbatim>\<open>null.creditsUsed\<close> included) is caught and logged, and 0 is returned.
\<close>

definition loadCredits :: "store \<Rightarrow> json" where
  "loadCredits f =
     (case f of
        Absent \<Rightarrow> JNum 0
      | Unreadable \<Rightarrow> JNum 0
      | Document d \<Rightarrow>
          (case d of
             JNull \<Rightarrow> JNum 0
           | _ \<Rightarrow>
               (case get_prop d ''creditsUsed'' of
                  Some v \<Rightarrow> (if js_truthy v then v else JNum 0)
                | None \<Rightarrow> JNum 0)))"

record server =
  creditsUsedTotal :: int
  credits_file :: store

text \<open>\<^verbatim>\<open>saveCredits\<close>; \<open>now\<close> is \<^verbatim>\<open>new Date().toISOString()\<close>.\<close>

definition saveCredits :: "string \<Rightarrow> server \<Rightarrow> server" where
  "saveCredits now s =
     s\<lparr>credits_file := Document (JObj
          [(''startingCredits'', JNum STARTING_CREDITS),
           (''creditsUsed'', JNum (creditsUsedTotal s)),
           (''creditsRemaining'', JNum (STARTING_CREDITS - creditsUsedTotal s)),
           (''lastUpdated'', JStr now)])\<rparr>"

text \<open>
  The block both generation endpoints run on the result of their service call:
  \<^verbatim>\<open>if (result.creditsUsed) { creditsUsedTotal += result.creditsUsed; saveCredits(); }\<close>
\<close>

definition charge :: "int \<Rightarrow> string \<Rightarrow> server \<Rightarrow> server" where
  "charge used now s =
     (if used \<noteq> 0 then
        saveCredits now (s\<lparr>creditsUsedTotal := js_add (creditsUsedTotal s) used\<rparr>)
      else s)"

datatype reply =
    Reply400 string
  | Reply500 string
  | SceneReply string int int
  | VideoReply string string int int
  | CreditsReply int int int

text \<open>
  \<open>SceneReply imageUrl creditsUsed creditsRemaining\<close> and
  \<open>VideoReply videoUrl generationId creditsUsed creditsRemaining\<close> are the
  \<^verbatim>\<open>success: true\<close> bodies; \<open>CreditsReply startingCredits creditsUsed creditsRemaining\<close>
  is the body of \<^verbatim>\<open>GET /api/credits\<close>.
\<close>

record scene_request =
  portraitA :: "string option"
  portraitB :: "string option"
  scenario :: "string option"

definition post_generate_scene ::
  "(nat \<Rightarrow> scene_data fetch_result) \<Rightarrow> string \<Rightarrow> scene_request \<Rightarrow> server \<Rightarrow> server \<times> reply"
where
  "post_generate_scene env now req s =
     (if portraitA req = None \<or> portraitB req = None then
        (s, Reply400 ''Both portrait images are required'')
      else if \<not> truthy (scenario req) then (s, Reply400 ''Scenario text is required'')
      else
        (case result (generateScene env) of
           Inl e \<Rightarrow> (s, Reply500 e)
         | Inr r \<Rightarrow>
             (let s' = charge (creditsUsed r) now s in
              (s', SceneReply (imageUrl r) (creditsUsed r)
                     (STARTING_CREDITS - creditsUsedTotal s')))))"

record video_request =
  sceneImageUrl :: "string option"
  videoPrompt :: "string option"

definition post_generate_video ::
  "(nat \<Rightarrow> create_data fetch_result) \<Rightarrow> (nat \<Rightarrow> poll_data fetch_result) \<Rightarrow> (nat \<Rightarrow> nat) \<Rightarrow>
   string \<Rightarrow> video_request \<Rightarrow> server \<Rightarrow> server \<times> reply"
where
  "post_generate_video cenv penv lat now req s =
     (if \<not> truthy (sceneImageUrl req) then (s, Reply400 ''Scene image URL is required'')
      else if \<not> truthy (videoPrompt req) then (s, Reply400 ''Video prompt is required'')
      else
        (case video_outcome (generateVideo cenv penv lat) of
           Inl e \<Rightarrow> (s, Reply500 e)
         | Inr r \<Rightarrow>
             (let s' = charge (videoCreditsUsed r) now s in
              (s', VideoReply (videoUrl r) (generationId r) (videoCreditsUsed r)
                     (STARTING_CREDITS - creditsUsedTotal s')))))"


text \<open>
  What a reply presents as remaining credits, when it presents any. The difference
  \<^verbatim>\<open>STARTING_CREDITS - creditsUsedTotal\<close> is taken exact: for a total from 0 to
  \<open>2 ^ 53\<close> it is an integer of magnitude at most \<open>2 ^ 53\<close>, which the subtraction
  of doubles yields without rounding.
\<close>

fun creditsRemaining :: "reply \<Rightarrow> int option" where
  "creditsRemaining (SceneReply u c r) = Some r"
| "creditsRemaining (VideoReply u g c r) = Some r"
| "creditsRemaining (CreditsReply t c r) = Some r"
| "creditsRemaining (Reply400 e) = None"
| "creditsRemaining (Reply500 e) = None"

section \<open>src/pipeline/duocast.ts\<close>

text \<open>
  \<^verbatim>\<open>processConversation\<close> runs validation, the scene stage, the optional save of the
  scene image and the video stage inside one \<^verbatim>\<open>try\<close>; every exception lands in the one
  \<^verbatim>\<open>catch\<close>, which builds the failure result. The two services and the file system are
  parameters: each stage either throws (\<open>Inl\<close> the message) or delivers its artifact.
  \<open>clock k\<close> is the \<open>k\<close>-th reading of \<^verbatim>\<open>Date.now()\<close> on the path taken, and
  \<open>path_join\<close> is Node's \<^verbatim>\<open>path.join\<close> on a directory and a file name. Console output
  and progress notifications are left out.
\<close>

record pipeline_input =
  in_portraitA :: string
  in_portraitB :: string
  in_scenario :: string
  in_outputPath :: "string option"

record pipeline_options =
  saveIntermediateScene :: "bool option"
  opt_scenePath :: "string option"

record scene_artifact =
  imageData :: string
  mimeType :: string

record video_artifact =
  out_videoPath :: string
  durationMs :: int

record pipeline_env =
  file_exists :: "string \<Rightarrow> bool"
  path_join :: "string \<Rightarrow> string \<Rightarrow> string"
  outputDir :: string
  mkdir_throws :: "string option"
  scene_stage :: "string + scene_artifact"
  saveImage_throws :: "string option"
  video_stage :: "string + video_artifact"
  clock :: "nat \<Rightarrow> nat"

record pipeline_result =
  success :: bool
  videoPath :: "string option"
  scenePath :: "string option"
  error :: "string option"
  sceneGenerationMs :: int
  videoGenerationMs :: int
  totalMs :: int

text \<open>\<^verbatim>\<open>validatePortraits\<close> of \<^verbatim>\<open>utils/image.ts\<close>: \<open>Some\<close> the message it throws.\<close>

definition validatePortraits :: "(string \<Rightarrow> bool) \<Rightarrow> string \<Rightarrow> string \<Rightarrow> string option" where
  "validatePortraits ex a b =
     (if \<not> ex a then Some (''Portrait A not found: '' @ a)
      else if \<not> ex b then Some (''Portrait B not found: '' @ b)
      else None)"

definition or_default :: "string option \<Rightarrow> string \<Rightarrow> string" where
  "or_default a d = (case a of Some x \<Rightarrow> (if x \<noteq> [] then x else d) | None \<Rightarrow> d)"

text \<open>The object the \<^verbatim>\<open>catch\<close> block returns: no \<^verbatim>\<open>videoPath\<close> and no \<^verbatim>\<open>scenePath\<close> key.\<close>

definition failure :: "string \<Rightarrow> int \<Rightarrow> int \<Rightarrow> int \<Rightarrow> pipeline_result" where
  "failure errorMessage sceneGenTime videoGenTime totalTime =
     \<lparr>success = False, videoPath = None, scenePath = None, error = Some errorMessage,
      sceneGenerationMs = sceneGenTime, videoGenerationMs = videoGenTime, totalMs = totalTime\<rparr>"

definition since :: "pipeline_env \<Rightarrow> nat \<Rightarrow> nat \<Rightarrow> int" where
  "since env k k0 = int (clock env k) - int (clock env k0)"

definition processConversation ::
  "pipeline_env \<Rightarrow> pipeline_input \<Rightarrow> pipeline_options \<Rightarrow> pipeline_result"
where
  "processConversation env inp opts =
     (case validatePortraits (file_exists env) (in_portraitA inp) (in_portraitB inp) of
        Some e \<Rightarrow> failure e 0 0 (since env 1 0)
      | None \<Rightarrow>
          (let timestamp = clock env 1;
               vPath = or_default (in_outputPath inp)
                         (path_join env (outputDir env) (''conversation_'' @ decimal timestamp @ ''.mp4''));
               sPath = or_default (opt_scenePath opts)
                         (path_join env (outputDir env) (''scene_'' @ decimal timestamp @ ''.png''))
           in
           case (if \<not> file_exists env (outputDir env) then mkdir_throws env else None) of
             Some e \<Rightarrow> failure e 0 0 (since env 2 0)
           | None \<Rightarrow>
               (case scene_stage env of
                  Inl e \<Rightarrow> failure e 0 0 (since env 3 0)
                | Inr sceneResult \<Rightarrow>
                    (let sceneGenTime = since env 3 2;
                         save = (saveIntermediateScene opts \<noteq> Some False)
                     in
                     case (if save then saveImage_throws env else None) of
                       Some e \<Rightarrow> failure e sceneGenTime 0 (since env 4 0)
                     | None \<Rightarrow>
                         (case video_stage env of
                            Inl e \<Rightarrow> failure e sceneGenTime 0 (since env 5 0)
                          | Inr videoResult \<Rightarrow>
                              \<lparr>success = True,
                               videoPath = Some (out_videoPath videoResult),
                               scenePath = (if save then Some sPath else None),
                               error = None,
                               sceneGenerationMs = sceneGenTime,
                               videoGenerationMs = since env 5 4,
                               totalMs = since env 6 0\<rparr>)))))"

section \<open>The web server's background job (\<^verbatim>\<open>processGeneration\<close>)\<close>

text \<open>
  The job registry maps a generation id to a status record. \<^verbatim>\<open>update\<close> replaces the
  record: \<^verbatim>\<open>generations.set(id, { status, progress, ...extra })\<close>.
\<close>

datatype job_stage = Pending | Scene | Video | Complete | Error

record generation =
  g_status :: job_stage
  g_progress :: string
  g_scenePath :: "string option"
  g_videoPath :: "string option"
  g_error :: "string option"

definition update ::
  "string \<Rightarrow> job_stage \<Rightarrow> string \<Rightarrow> string option \<Rightarrow> string option \<Rightarrow> string option \<Rightarrow>
   (string \<rightharpoonup> generation) \<Rightarrow> (string \<rightharpoonup> generation)"
where
  "update gid st progress sp vp err gens =
     gens(gid \<mapsto> \<lparr>g_status = st, g_progress = progress, g_scenePath = sp,
                   g_videoPath = vp, g_error = err\<rparr>)"

text \<open>
  The remote operation as the loop sees it: \<^verbatim>\<open>operation.done\<close> and
  \<^verbatim>\<open>operation.response?.generatedVideos?.[0]?.video\<close>.
\<close>

record operation =
  op_done :: bool
  op_video :: "string option"

text \<open>
  What the job's collaborators do: reading the two uploads, the image model's answer
  (the \<^verbatim>\<open>inlineData?.data\<close> of each part of the first candidate), writing the scene file,
  starting the video operation, each \<^verbatim>\<open>getVideosOperation\<close>, the download and the final
  clean-up of the uploads. \<open>Some\<close> or \<open>Inl\<close> carries the message of what is thrown.
\<close>

record job_env =
  read_portraits_throws :: "string option"
  generateContent :: "string + string option list"
  write_scene_throws :: "string option"
  generateVideos :: "string + operation"
  getVideosOperation :: "nat \<Rightarrow> string + operation"
  download_throws :: "string option"
  unlink_throws :: "string option"

text \<open>The first part that carries inline data.\<close>

fun first_inline :: "string option list \<Rightarrow> string option" where
  "first_inline [] = None"
| "first_inline (p # ps) = (if truthy p then p else first_inline ps)"

definition maxAttempts :: nat where
  "maxAttempts = 60"

function await_operation ::
  "(nat \<Rightarrow> string + operation) \<Rightarrow> operation \<Rightarrow> nat \<Rightarrow> string + operation"
where
  "await_operation poll opn n =
     (if \<not> op_done opn \<and> n < maxAttempts then
        (case poll n of
           Inl e \<Rightarrow> Inl e
         | Inr opn' \<Rightarrow> await_operation poll opn' (Suc n))
      else Inr opn)"
  by pat_completeness auto
termination
  by (relation "measure (\<lambda>(poll, opn, n). maxAttempts - n)") auto

declare await_operation.simps [simp del]

text \<open>Stage 2 of the job, up to the download: \<open>Inl\<close> the message thrown.\<close>

definition video_phase :: "job_env \<Rightarrow> string + unit" where
  "video_phase env =
     (case generateVideos env of
        Inl e \<Rightarrow> Inl e
      | Inr op0 \<Rightarrow>
          (case await_operation (getVideosOperation env) op0 0 of
             Inl e \<Rightarrow> Inl e
           | Inr opn \<Rightarrow>
               if \<not> op_done opn then Inl ''Video generation timed out''
               else if \<not> truthy (op_video opn) then Inl ''No video in response''
               else (case download_throws env of Some e \<Rightarrow> Inl e | None \<Rightarrow> Inr ())))"

text \<open>Stage 1 of the job, up to the scene file being written.\<close>

definition scene_phase :: "job_env \<Rightarrow> string + unit" where
  "scene_phase env =
     (case read_portraits_throws env of
        Some e \<Rightarrow> Inl e
      | None \<Rightarrow>
          (case generateContent env of
             Inl e \<Rightarrow> Inl e
           | Inr parts \<Rightarrow>
               if \<not> truthy (first_inline parts) then Inl ''Failed to generate scene image''
               else (case write_scene_throws env of Some e \<Rightarrow> Inl e | None \<Rightarrow> Inr ())))"

text \<open>\<^verbatim>\<open>error.message || String(error)\<close> of the \<^verbatim>\<open>catch\<close> block.\<close>

definition message_of :: "string \<Rightarrow> string" where
  "message_of m = (if m \<noteq> [] then m else ''Error'')"

definition job_failed :: "string \<Rightarrow> string \<Rightarrow> (string \<rightharpoonup> generation) \<Rightarrow> (string \<rightharpoonup> generation)" where
  "job_failed gid m gens = update gid Error ''Generation failed'' None None (Some (message_of m)) gens"

text \<open>
  The two updates between the stages: the first publishes the scene,
  \<^verbatim>\<open>update('scene', 'Scene generated! ...', { scenePath: `/output/scene_${id}.png` })\<close>,
  the second, \<^verbatim>\<open>update('video', 'Generating video with Veo 3.1...')\<close>, follows at once.
\<close>

definition scene_published :: "string \<Rightarrow> (string \<rightharpoonup> generation) \<Rightarrow> (string \<rightharpoonup> generation)" where
  "scene_published gid gens =
     update gid Scene ''Scene generated! Starting video generation...''
       (Some (''/output/scene_'' @ gid @ ''.png'')) None None gens"

definition video_started :: "string \<Rightarrow> (string \<rightharpoonup> generation) \<Rightarrow> (string \<rightharpoonup> generation)" where
  "video_started gid gens = update gid Video ''Generating video with Veo 3.1...'' None None None gens"

text \<open>
  \<^verbatim>\<open>processGeneration\<close>: the registry after the job has run to its end, which is what
  a caller of \<^verbatim>\<open>/api/status/:id\<close> then gets. The progress records written while the
  operation is awaited (status \<^verbatim>\<open>video\<close> with the seconds elapsed, no paths) are
  overwritten by the last \<^verbatim>\<open>update\<close> and are left out.
\<close>

definition processGeneration ::
  "string \<Rightarrow> job_env \<Rightarrow> (string \<rightharpoonup> generation) \<Rightarrow> (string \<rightharpoonup> generation)"
where
  "processGeneration gid env gens =
     (let g1 = update gid Scene ''Generating composite scene...'' None None None gens in
      case scene_phase env of
        Inl e \<Rightarrow> job_failed gid e g1
      | Inr u \<Rightarrow>
          (let g3 = video_started gid (scene_published gid g1) in
           case video_phase env of
             Inl e \<Rightarrow> job_failed gid e g3
           | Inr u' \<Rightarrow>
               (let g4 = update gid Complete ''Generation complete!''
                           (Some (''/output/scene_'' @ gid @ ''.png''))
                           (Some (''/output/video_'' @ gid @ ''.mp4'')) None g3
                in
                case unlink_throws env of
                  Some e \<Rightarrow> job_failed gid e g4
                | None \<Rightarrow> g4)))"

section \<open>client/src/App.jsx\<close>

text \<open>
  The React client is the third orchestrator: \<^verbatim>\<open>handleGenerate\<close> posts to
  \<^verbatim>\<open>/api/generate-scene\<close>, then to \<^verbatim>\<open>/api/generate-video\<close>, and keeps the run in its
  component state. Each of the two calls either rejects (\<open>Inl\<close> the message, also when
  the body is not JSON) or delivers a reply of the server; of a reply the client reads
  \<^verbatim>\<open>res.ok\<close>, \<^verbatim>\<open>success\<close>, \<^verbatim>\<open>error\<close>, \<^verbatim>\<open>imageUrl\<close>, \<^verbatim>\<open>videoUrl\<close>, \<^verbatim>\<open>creditsUsed\<close>
  and \<^verbatim>\<open>creditsRemaining\<close>.
\<close>

datatype ui_status = Idle | GeneratingScene | GeneratingVideo | Finished | Failed

record credits_view =
  v_startingCredits :: int
  v_creditsUsed :: int
  v_creditsRemaining :: int

record app =
  app_status :: ui_status
  app_sceneImageUrl :: "string option"
  app_videoUrl :: "string option"
  app_error :: "string option"
  app_statusMessage :: string
  app_credits :: credits_view

fun res_ok :: "reply \<Rightarrow> bool" where
  "res_ok (Reply400 e) = False"
| "res_ok (Reply500 e) = False"
| "res_ok r = True"

fun data_success :: "reply \<Rightarrow> bool" where
  "data_success (SceneReply u c r) = True"
| "data_success (VideoReply u g c r) = True"
| "data_success r = False"

fun data_error :: "reply \<Rightarrow> string option" where
  "data_error (Reply400 e) = Some e"
| "data_error (Reply500 e) = Some e"
| "data_error r = None"

fun data_imageUrl :: "reply \<Rightarrow> string option" where
  "data_imageUrl (SceneReply u c r) = Some u"
| "data_imageUrl r = None"

fun data_videoUrl :: "reply \<Rightarrow> string option" where
  "data_videoUrl (VideoReply u g c r) = Some u"
| "data_videoUrl r = None"

fun data_creditsUsed :: "reply \<Rightarrow> int option" where
  "data_creditsUsed (SceneReply u c r) = Some c"
| "data_creditsUsed (VideoReply u g c r) = Some c"
| "data_creditsUsed (CreditsReply t c r) = Some c"
| "data_creditsUsed r = None"

text \<open>
  \<^verbatim>\<open>if (data.creditsRemaining != null) setCredits(c => ({ ...c, creditsUsed:
  data.creditsUsed || c.creditsUsed, creditsRemaining: data.creditsRemaining }))\<close>
\<close>

definition note_credits :: "reply \<Rightarrow> credits_view \<Rightarrow> credits_view" where
  "note_credits d c =
     (case creditsRemaining d of
        None \<Rightarrow> c
      | Some r \<Rightarrow>
          c\<lparr>v_creditsUsed :=
               (case data_creditsUsed d of
                  Some n \<Rightarrow> (if n \<noteq> 0 then n else v_creditsUsed c)
                | None \<Rightarrow> v_creditsUsed c),
            v_creditsRemaining := r\<rparr>)"

text \<open>The \<^verbatim>\<open>catch\<close> block: the scene and video URLs held in the state are not touched.\<close>

definition caught :: "string \<Rightarrow> app \<Rightarrow> app" where
  "caught m a = a\<lparr>app_status := Failed, app_error := Some m, app_statusMessage := []\<rparr>"

definition handleGenerate :: "string + reply \<Rightarrow> string + reply \<Rightarrow> app \<Rightarrow> app" where
  "handleGenerate sceneRes videoRes a =
     (let a1 = a\<lparr>app_status := GeneratingScene, app_error := None, app_sceneImageUrl := None,
                  app_videoUrl := None,
                  app_statusMessage := ''Composing scene with NanoBanana Pro Edit...''\<rparr>
      in
      case sceneRes of
        Inl m \<Rightarrow> caught m a1
      | Inr sceneData \<Rightarrow>
          if \<not> res_ok sceneData \<or> \<not> data_success sceneData then
            caught (or_default (data_error sceneData) ''Scene generation failed'') a1
          else
            (let a2 = a1\<lparr>app_sceneImageUrl := data_imageUrl sceneData,
                          app_credits := note_credits sceneData (app_credits a1),
                          app_statusMessage := ''Scene generated! Now creating video with Veo 3.1...'',
                          app_status := GeneratingVideo\<rparr>
             in
             case videoRes of
               Inl m \<Rightarrow> caught m a2
             | Inr videoData \<Rightarrow>
                 if \<not> res_ok videoData \<or> \<not> data_success videoData then
                   caught (or_default (data_error videoData) ''Video generation failed'') a2
                 else
                   a2\<lparr>app_videoUrl := data_videoUrl videoData,
                      app_credits := note_credits videoData (app_credits a2),
                      app_status := Finished,
                      app_statusMessage := ''Video ready!''\<rparr>))"

section \<open>Notions the properties are stated with\<close>

text \<open>
  Scripted remotes for the concrete runs: the first \<open>n\<close> fetches resolve to one
  response and all later ones to another; a constant function (the same answer to every
  fetch, the same latency for every poll); a latency that differs for the first poll only.
\<close>

definition answers_then :: "nat \<Rightarrow> 'd response \<Rightarrow> 'd response \<Rightarrow> nat \<Rightarrow> 'd fetch_result" where
  "answers_then n a b k = (if k < n then Resolved a else Resolved b)"

definition always :: "'a \<Rightarrow> 'b \<Rightarrow> 'a" where
  "always x k = x"

definition first_then :: "nat \<Rightarrow> nat \<Rightarrow> nat \<Rightarrow> nat" where
  "first_then a b k = (if k = 0 then a else b)"

text \<open>
  Well-formed 2xx answers of the three remote calls: a scene with its image under
  \<^verbatim>\<open>data[0].url\<close>, a created task, and a poll with a status, an optional video URL and an
  optional usage count. \<open>ticking t0 step\<close> is a clock that advances by \<open>step\<close> between
  two readings.
\<close>

definition scene_answer :: "string \<Rightarrow> int option \<Rightarrow> scene_data response" where
  "scene_answer url used =
     \<lparr>status = 200, text_body = [],
      json_body = Inr \<lparr>data0 = Some (Some url, None), images0 = None, top_url = None,
                       scene_credits_used = used\<rparr>\<rparr>"

definition created_answer :: "string \<Rightarrow> create_data response" where
  "created_answer g = \<lparr>status = 200, text_body = [], json_body = Inr \<lparr>task_id = Some g\<rparr>\<rparr>"

definition poll_answer :: "string \<Rightarrow> string option \<Rightarrow> int option \<Rightarrow> poll_data response" where
  "poll_answer st url used =
     \<lparr>status = 200, text_body = [],
      json_body = Inr \<lparr>job_status = st, video_url = url, poll_credits_used = used,
                       error_message = None\<rparr>\<rparr>"

definition ticking :: "nat \<Rightarrow> nat \<Rightarrow> nat \<Rightarrow> nat" where
  "ticking t0 step k = t0 + k * step"

text \<open>
  What \<^verbatim>\<open>path.join\<close> returns for a directory and a file name that need no
  normalisation, such as \<^verbatim>\<open>output\<close> and \<^verbatim>\<open>scene.png\<close>.
\<close>

definition plain_join :: "string \<Rightarrow> string \<Rightarrow> string" where
  "plain_join d f = d @ ''/'' @ f"

text \<open>
  A transient failure of one attempt: the fetch rejects, or the response has a status of
  500 or more. \<open>observed_error what f\<close> is the error the retry loop keeps for it (the
  rejection's message, or the message the 5xx branch builds), and \<open>rethrown marker f\<close>
  says that a rejection's own message carries the marker the \<^verbatim>\<open>catch\<close> block searches
  for.
\<close>

text \<open>
  Of a poll: \<open>pending\<close> is a 2xx answer whose parsed body reports a status other than
  \<^verbatim>\<open>completed\<close>, \<^verbatim>\<open>failed\<close> and \<^verbatim>\<open>error\<close>; \<open>server_error\<close> is an answer with a
  status of 500 or more.
\<close>

definition pending :: "poll_data fetch_result \<Rightarrow> bool" where
  "pending f =
     (case f of
        Rejected m \<Rightarrow> False
      | Resolved r \<Rightarrow>
          ok r \<and>
          (case json_body r of
             Inl m \<Rightarrow> False
           | Inr d \<Rightarrow>
               job_status d \<noteq> ''completed'' \<and> job_status d \<noteq> ''failed'' \<and>
               job_status d \<noteq> ''error''))"


text \<open>
  The course of a run of the polling loop, poll by poll. While the loop goes on, the
  head of the iteration that issues poll \<open>n\<close> is reached \<open>head_time lat n\<close> after the
  start of polling, and the poll is issued \<open>POLL_INTERVAL_MS\<close> later. \<open>counter_before
  env lat gid n\<close> is the value of \<^verbatim>\<open>consecutivePollErrors\<close> at that loop head when the run
  gets there, that is, when each earlier poll was issued below the ceiling and let the
  loop go on; it is \<open>None\<close> when the operation has ended before.
\<close>

primrec head_time :: "(nat \<Rightarrow> nat) \<Rightarrow> nat \<Rightarrow> nat" where
  "head_time lat 0 = 0"
| "head_time lat (Suc n) = head_time lat n + POLL_INTERVAL_MS + lat n"

definition issue_time :: "(nat \<Rightarrow> nat) \<Rightarrow> nat \<Rightarrow> nat" where
  "issue_time lat n = head_time lat n + POLL_INTERVAL_MS"

primrec counter_before ::
  "(nat \<Rightarrow> poll_data fetch_result) \<Rightarrow> (nat \<Rightarrow> nat) \<Rightarrow> string \<Rightarrow> nat \<Rightarrow> nat option"
where
  "counter_before env lat gid 0 = Some 0"
| "counter_before env lat gid (Suc n) =
     (case counter_before env lat gid n of
        None \<Rightarrow> None
      | Some c \<Rightarrow>
          if head_time lat n < TIMEOUT_MS then
            (case poll_once (env n) gid c of
               Again c' \<Rightarrow> Some c'
             | Done v \<Rightarrow> None
             | Thrown m \<Rightarrow> None)
          else None)"

definition transient :: "'d fetch_result \<Rightarrow> bool" where
  "transient f = (case f of Rejected m \<Rightarrow> True | Resolved r \<Rightarrow> status r \<ge> 500)"

definition observed_error :: "string \<Rightarrow> 'd fetch_result \<Rightarrow> string" where
  "observed_error what f =
     (case f of Rejected m \<Rightarrow> m | Resolved r \<Rightarrow> http_error what (status r) ''Server error'')"

definition rethrown :: "string \<Rightarrow> 'd fetch_result \<Rightarrow> bool" where
  "rethrown marker f = (case f of Rejected m \<Rightarrow> js_includes m marker | Resolved r \<Rightarrow> False)"

section \<open>Searching messages\<close>


lemma starts_with_append: "starts_with a n \<Longrightarrow> starts_with (a @ b) n"
  by (induction a n rule: starts_with.induct) auto

lemma js_includes_append_left: "js_includes a n \<Longrightarrow> js_includes (a @ b) n"
proof (induction a)
  case Nil
  then show ?case by (cases b) auto
next
  case (Cons x xs)
  then show ?case using starts_with_append [of "x # xs" n b] by auto
qed

lemma js_includes_append_right: "js_includes b n \<Longrightarrow> js_includes (a @ b) n"
  by (induction a) auto

lemma decimal_4xx:
  assumes "400 \<le> n" "n \<le> 499"
  shows "\<exists>ds. decimal n = CHR ''4'' # ds"
proof -
  have a: "\<not> n < 10" "\<not> n div 10 < 10" "n div 10 div 10 = 4" using assms by auto
  have "decimal n = decimal (n div 10) @ [digit_char (n mod 10)]"
    using a(1) by (subst decimal.simps) simp
  also have "decimal (n div 10) = decimal (n div 10 div 10) @ [digit_char (n div 10 mod 10)]"
    using a(2) by (subst decimal.simps) simp
  also have "decimal (n div 10 div 10) = [CHR ''4'']"
    unfolding a(3) by (subst decimal.simps) (simp add: digit_char_def)
  finally show ?thesis by simp
qed

lemma http_error_4xx:
  assumes "400 \<le> n" "n \<le> 499"
  shows "\<exists>ds. http_error what n t = what @ '' (4'' @ ds"
proof -
  obtain ds where d: "decimal n = CHR ''4'' # ds" using decimal_4xx [OF assms] by blast
  show ?thesis by (simp add: http_error_def d)
qed

lemma scene_4xx_marker:
  assumes "400 \<le> n" "n \<le> 499"
  shows "js_includes (http_error ''NanoBanana API error'' n t) ''API error (4''"
proof -
  obtain ds where d: "http_error ''NanoBanana API error'' n t = ''NanoBanana API error'' @ '' (4'' @ ds"
    using http_error_4xx [OF assms] by blast
  have "js_includes (''NanoBanana API error (4'' @ ds) ''API error (4''"
    by (rule js_includes_append_left) simp
  then show ?thesis by (simp add: d)
qed

lemma create_4xx_marker:
  assumes "400 \<le> n" "n \<le> 499"
  shows "js_includes (http_error ''Veo 3.1 create error'' n t) ''error (4''"
proof -
  obtain ds where d: "http_error ''Veo 3.1 create error'' n t = ''Veo 3.1 create error'' @ '' (4'' @ ds"
    using http_error_4xx [OF assms] by blast
  have "js_includes (''Veo 3.1 create error (4'' @ ds) ''error (4''"
    by (rule js_includes_append_left) simp
  then show ?thesis by (simp add: d)
qed

lemma scene_try_4xx:
  assumes "400 \<le> status r" "status r \<le> 499"
  shows "scene_try (Resolved r) = Caught (http_error ''NanoBanana API error'' (status r) (text_body r))"
  using assms by (simp add: scene_try_def ok_def)

lemma create_try_4xx:
  assumes "400 \<le> status r" "status r \<le> 499"
  shows "create_try (Resolved r) = Caught (http_error ''Veo 3.1 create error'' (status r) (text_body r))"
  using assms by (simp add: create_try_def ok_def)

lemma scene_first_4xx:
  assumes "env 0 = Resolved r" "400 \<le> status r" "status r \<le> 499"
  shows "generateScene env =
           \<lparr>result = Inl (http_error ''NanoBanana API error'' (status r) (text_body r)),
            attempts = 1, slept = []\<rparr>"
  unfolding generateScene_def
  by (subst scene_loop.simps)
     (simp add: assms scene_try_4xx scene_4xx_marker MAX_RETRIES_def backoff_def)

lemma video_first_4xx:
  assumes "cenv 0 = Resolved r" "400 \<le> status r" "status r \<le> 499"
  shows "generateVideo cenv penv lat =
           \<lparr>video_outcome = Inl (http_error ''Veo 3.1 create error'' (status r) (text_body r)),
            create_attempts = 1, create_slept = [], video_poll_times = []\<rparr>"
proof -
  have "create_loop cenv 0 None [] =
          \<lparr>result = Inl (http_error ''Veo 3.1 create error'' (status r) (text_body r)),
           attempts = 1, slept = []\<rparr>"
    by (subst create_loop.simps)
       (simp add: assms create_try_4xx create_4xx_marker MAX_RETRIES_def backoff_def)
  then show ?thesis by (simp add: generateVideo_def)
qed

section \<open>The retry loops under transient failures\<close>

lemma scene_step_transient:
  assumes "a \<le> 3" "transient (env a)"
  shows "scene_loop env a le sl =
           (if rethrown ''API error (4'' (env a) then
              \<lparr>result = Inl (observed_error ''NanoBanana API error'' (env a)),
               attempts = Suc a, slept = backoff a sl\<rparr>
            else scene_loop env (Suc a) (Some (observed_error ''NanoBanana API error'' (env a)))
                   (backoff a sl))"
proof (cases "env a")
  case (Rejected m)
  then show ?thesis
    using assms(1)
    by (subst scene_loop.simps)
       (simp add: scene_try_def MAX_RETRIES_def rethrown_def observed_error_def)
next
  case (Resolved r)
  then have "status r \<ge> 500" using assms(2) by (simp add: transient_def)
  then show ?thesis
    using assms(1) Resolved
    by (subst scene_loop.simps)
       (simp add: scene_try_def MAX_RETRIES_def rethrown_def observed_error_def)
qed

lemma backoff_schedule:
  "backoff 0 sl = sl" "backoff (Suc 0) sl = sl @ [5000]"
  "backoff (Suc (Suc 0)) sl = sl @ [15000]" "backoff (Suc (Suc (Suc 0))) sl = sl @ [30000]"
  by (simp_all add: backoff_def retry_delay_def RETRY_DELAYS_def)

lemma scene_loop_exhausted:
  "scene_loop env (Suc (Suc (Suc (Suc 0)))) (Some e) sl =
     \<lparr>result = Inl e, attempts = Suc (Suc (Suc (Suc 0))), slept = sl\<rparr>"
  by (subst scene_loop.simps) (simp add: MAX_RETRIES_def)

lemma scene_all_transient_run:
  assumes "\<forall>k\<le>3. transient (env k)"
  shows "generateScene env =
           (if rethrown ''API error (4'' (env 0) then
              \<lparr>result = Inl (observed_error ''NanoBanana API error'' (env 0)),
               attempts = 1, slept = []\<rparr>
            else if rethrown ''API error (4'' (env 1) then
              \<lparr>result = Inl (observed_error ''NanoBanana API error'' (env 1)),
               attempts = 2, slept = [5000]\<rparr>
            else if rethrown ''API error (4'' (env 2) then
              \<lparr>result = Inl (observed_error ''NanoBanana API error'' (env 2)),
               attempts = 3, slept = [5000, 15000]\<rparr>
            else
              \<lparr>result = Inl (observed_error ''NanoBanana API error'' (env 3)),
               attempts = 4, slept = [5000, 15000, 30000]\<rparr>)"
proof -
  let ?err = "\<lambda>k. observed_error ''NanoBanana API error'' (env k)"
  let ?stop = "\<lambda>k. rethrown ''API error (4'' (env k)"
  let ?k1 = "Suc 0" let ?k2 = "Suc (Suc 0)" let ?k3 = "Suc (Suc (Suc 0))"
  have t: "transient (env 0)" "transient (env ?k1)" "transient (env ?k2)" "transient (env ?k3)"
    using assms by simp_all
  have l3: "scene_loop env ?k3 le sl =
              \<lparr>result = Inl (?err ?k3), attempts = Suc ?k3, slept = sl @ [30000]\<rparr>" for le sl
    using scene_step_transient [of ?k3 env le sl] t(4)
    by (simp add: scene_loop_exhausted backoff_schedule)
  have l2: "scene_loop env ?k2 le sl =
              (if ?stop ?k2 then \<lparr>result = Inl (?err ?k2), attempts = ?k3, slept = sl @ [15000]\<rparr>
               else \<lparr>result = Inl (?err ?k3), attempts = Suc ?k3, slept = sl @ [15000, 30000]\<rparr>)" for le sl
    using scene_step_transient [of ?k2 env le sl] t(3)
    by (simp add: l3 backoff_schedule)
  have l1: "scene_loop env ?k1 le sl =
              (if ?stop ?k1 then \<lparr>result = Inl (?err ?k1), attempts = ?k2, slept = sl @ [5000]\<rparr>
               else if ?stop ?k2 then \<lparr>result = Inl (?err ?k2), attempts = ?k3, slept = sl @ [5000, 15000]\<rparr>
               else \<lparr>result = Inl (?err ?k3), attempts = Suc ?k3, slept = sl @ [5000, 15000, 30000]\<rparr>)" for le sl
    using scene_step_transient [of ?k1 env le sl] t(2)
    by (simp add: l2 backoff_schedule)
  have l0: "scene_loop env 0 None [] =
              (if ?stop 0 then \<lparr>result = Inl (?err 0), attempts = ?k1, slept = []\<rparr>
               else if ?stop ?k1 then \<lparr>result = Inl (?err ?k1), attempts = ?k2, slept = [5000]\<rparr>
               else if ?stop ?k2 then \<lparr>result = Inl (?err ?k2), attempts = ?k3, slept = [5000, 15000]\<rparr>
               else \<lparr>result = Inl (?err ?k3), attempts = Suc ?k3, slept = [5000, 15000, 30000]\<rparr>)"
    using scene_step_transient [of 0 env None "[]"] t(1)
    by (simp add: l1 backoff_schedule)
  have n: "(1::nat) = ?k1" "(2::nat) = ?k2" "(3::nat) = ?k3" "(4::nat) = Suc ?k3" by simp_all
  show ?thesis
    unfolding generateScene_def l0 n ..
qed

lemma scene_all_transient:
  assumes "\<forall>k\<le>3. transient (env k)"
  shows "(let run = generateScene env; n = attempts run in
            1 \<le> n \<and> n \<le> 4 \<and>
            slept run = take (n - 1) [5000, 15000, 30000] \<and>
            result run = Inl (observed_error ''NanoBanana API error'' (env (n - 1))) \<and>
            ((\<forall>k\<le>3. \<not> rethrown ''API error (4'' (env k)) \<longrightarrow> n = 4))"
proof -
  have k: "(0::nat) \<le> 3" "(1::nat) \<le> 3" "(2::nat) \<le> 3" by simp_all
  show ?thesis
    unfolding scene_all_transient_run [OF assms] Let_def
    using k by auto
qed


lemma create_step_transient:
  assumes "a \<le> 3" "transient (env a)"
  shows "create_loop env a le sl =
           (if rethrown ''error (4'' (env a) then
              \<lparr>result = Inl (observed_error ''Veo 3.1 create error'' (env a)),
               attempts = Suc a, slept = backoff a sl\<rparr>
            else create_loop env (Suc a) (Some (observed_error ''Veo 3.1 create error'' (env a)))
                   (backoff a sl))"
proof (cases "env a")
  case (Rejected m)
  then show ?thesis
    using assms(1)
    by (subst create_loop.simps)
       (simp add: create_try_def MAX_RETRIES_def rethrown_def observed_error_def)
next
  case (Resolved r)
  then have "status r \<ge> 500" using assms(2) by (simp add: transient_def)
  then show ?thesis
    using assms(1) Resolved
    by (subst create_loop.simps)
       (simp add: create_try_def MAX_RETRIES_def rethrown_def observed_error_def)
qed

lemma create_loop_exhausted:
  "create_loop env (Suc (Suc (Suc (Suc 0)))) (Some e) sl =
     \<lparr>result = Inl e, attempts = Suc (Suc (Suc (Suc 0))), slept = sl\<rparr>"
  by (subst create_loop.simps) (simp add: MAX_RETRIES_def)

lemma create_all_transient_run:
  assumes "\<forall>k\<le>3. transient (env k)"
  shows "create_loop env 0 None [] =
           (if rethrown ''error (4'' (env 0) then
              \<lparr>result = Inl (observed_error ''Veo 3.1 create error'' (env 0)),
               attempts = 1, slept = []\<rparr>
            else if rethrown ''error (4'' (env 1) then
              \<lparr>result = Inl (observed_error ''Veo 3.1 create error'' (env 1)),
               attempts = 2, slept = [5000]\<rparr>
            else if rethrown ''error (4'' (env 2) then
              \<lparr>result = Inl (observed_error ''Veo 3.1 create error'' (env 2)),
               attempts = 3, slept = [5000, 15000]\<rparr>
            else
              \<lparr>result = Inl (observed_error ''Veo 3.1 create error'' (env 3)),
               attempts = 4, slept = [5000, 15000, 30000]\<rparr>)"
proof -
  let ?err = "\<lambda>k. observed_error ''Veo 3.1 create error'' (env k)"
  let ?stop = "\<lambda>k. rethrown ''error (4'' (env k)"
  let ?k1 = "Suc 0" let ?k2 = "Suc (Suc 0)" let ?k3 = "Suc (Suc (Suc 0))"
  have t: "transient (env 0)" "transient (env ?k1)" "transient (env ?k2)" "transient (env ?k3)"
    using assms by simp_all
  have l3: "create_loop env ?k3 le sl =
              \<lparr>result = Inl (?err ?k3), attempts = Suc ?k3, slept = sl @ [30000]\<rparr>" for le sl
    using create_step_transient [of ?k3 env le sl] t(4)
    by (simp add: create_loop_exhausted backoff_schedule)
  have l2: "create_loop env ?k2 le sl =
              (if ?stop ?k2 then \<lparr>result = Inl (?err ?k2), attempts = ?k3, slept = sl @ [15000]\<rparr>
               else \<lparr>result = Inl (?err ?k3), attempts = Suc ?k3, slept = sl @ [15000, 30000]\<rparr>)" for le sl
    using create_step_transient [of ?k2 env le sl] t(3)
    by (simp add: l3 backoff_schedule)
  have l1: "create_loop env ?k1 le sl =
              (if ?stop ?k1 then \<lparr>result = Inl (?err ?k1), attempts = ?k2, slept = sl @ [5000]\<rparr>
               else if ?stop ?k2 then \<lparr>result = Inl (?err ?k2), attempts = ?k3, slept = sl @ [5000, 15000]\<rparr>
               else \<lparr>result = Inl (?err ?k3), attempts = Suc ?k3, slept = sl @ [5000, 15000, 30000]\<rparr>)" for le sl
    using create_step_transient [of ?k1 env le sl] t(2)
    by (simp add: l2 backoff_schedule)
  have l0: "create_loop env 0 None [] =
              (if ?stop 0 then \<lparr>result = Inl (?err 0), attempts = ?k1, slept = []\<rparr>
               else if ?stop ?k1 then \<lparr>result = Inl (?err ?k1), attempts = ?k2, slept = [5000]\<rparr>
               else if ?stop ?k2 then \<lparr>result = Inl (?err ?k2), attempts = ?k3, slept = [5000, 15000]\<rparr>
               else \<lparr>result = Inl (?err ?k3), attempts = Suc ?k3, slept = [5000, 15000, 30000]\<rparr>)"
    using create_step_transient [of 0 env None "[]"] t(1)
    by (simp add: l1 backoff_schedule)
  have n: "(1::nat) = ?k1" "(2::nat) = ?k2" "(3::nat) = ?k3" "(4::nat) = Suc ?k3" by simp_all
  show ?thesis
    unfolding l0 n ..
qed

lemma video_all_transient:
  assumes "\<forall>k\<le>3. transient (cenv k)"
  shows "(let run = generateVideo cenv penv lat; n = create_attempts run in
            1 \<le> n \<and> n \<le> 4 \<and>
            create_slept run = take (n - 1) [5000, 15000, 30000] \<and>
            video_outcome run = Inl (observed_error ''Veo 3.1 create error'' (cenv (n - 1))) \<and>
            video_poll_times run = [] \<and>
            ((\<forall>k\<le>3. \<not> rethrown ''error (4'' (cenv k)) \<longrightarrow> n = 4))"
proof -
  have k: "(0::nat) \<le> 3" "(1::nat) \<le> 3" "(2::nat) \<le> 3" by simp_all
  show ?thesis
    unfolding generateVideo_def create_all_transient_run [OF assms] Let_def
    using k by auto
qed

text \<open>
  Claim C1. When every attempt of \<^verbatim>\<open>generateScene\<close>, or of step 1 of \<^verbatim>\<open>generateVideo\<close>,
  fails transiently (a status of 500 or more, or a rejected fetch), the call makes at
  least one and at most four attempts, the delays slept before the retries are the first
  entries of 5000, 15000, 30000 ms in this order, and the error thrown to the caller is the
  one observed at the last attempt made; no poll is issued. Unless a rejection's own
  message carries the client-error marker of the \<^verbatim>\<open>catch\<close> block (which rethrows that
  rejection at once), exactly four attempts are made.
\<close>

theorem transient_failures_exhaust_retries:
  "((\<forall>k\<le>3. transient (env k)) \<longrightarrow>
      (let run = generateScene env; n = attempts run in
         1 \<le> n \<and> n \<le> 4 \<and>
         slept run = take (n - 1) [5000, 15000, 30000] \<and>
         result run = Inl (observed_error ''NanoBanana API error'' (env (n - 1))) \<and>
         ((\<forall>k\<le>3. \<not> rethrown ''API error (4'' (env k)) \<longrightarrow> n = 4))) \<and>
   ((\<forall>k\<le>3. transient (cenv k)) \<longrightarrow>
      (let run = generateVideo cenv penv lat; n = create_attempts run in
         1 \<le> n \<and> n \<le> 4 \<and>
         create_slept run = take (n - 1) [5000, 15000, 30000] \<and>
         video_outcome run = Inl (observed_error ''Veo 3.1 create error'' (cenv (n - 1))) \<and>
         video_poll_times run = [] \<and>
         ((\<forall>k\<le>3. \<not> rethrown ''error (4'' (cenv k)) \<longrightarrow> n = 4)))"
  using scene_all_transient video_all_transient by blast

theorem transient_failures_exhaust_retries_witness:
  "attempts (generateScene (\<lambda>k. Resolved \<lparr>status = 503, text_body = ''busy'', json_body = Inl ''no JSON''\<rparr>)) = 4 \<and>
   slept (generateScene (\<lambda>k. Resolved \<lparr>status = 503, text_body = ''busy'', json_body = Inl ''no JSON''\<rparr>))
     = [5000, 15000, 30000] \<and>
   result (generateScene (\<lambda>k. Resolved \<lparr>status = 503, text_body = ''busy'', json_body = Inl ''no JSON''\<rparr>))
     = Inl ''NanoBanana API error (503): Server error'' \<and>
   create_attempts (generateVideo (\<lambda>k. Rejected ''socket hang up'') (\<lambda>k. Rejected ''unused'') (\<lambda>k. 0)) = 4 \<and>
   create_slept (generateVideo (\<lambda>k. Rejected ''socket hang up'') (\<lambda>k. Rejected ''unused'') (\<lambda>k. 0))
     = [5000, 15000, 30000] \<and>
   video_outcome (generateVideo (\<lambda>k. Rejected ''socket hang up'') (\<lambda>k. Rejected ''unused'') (\<lambda>k. 0))
     = Inl ''socket hang up''"
  using transient_failures_exhaust_retries
          [of "\<lambda>k. Resolved \<lparr>status = 503, text_body = ''busy'', json_body = Inl ''no JSON''\<rparr>"
              "\<lambda>k. Rejected ''socket hang up''" "\<lambda>k. Rejected ''unused''" "\<lambda>k. 0"]
  by (simp add: transient_def rethrown_def observed_error_def http_error_def decimal.simps
        digit_char_def Let_def)

text \<open>
  Claim C7. When the first attempt of \<^verbatim>\<open>generateScene\<close>, or of step 1 of
  \<^verbatim>\<open>generateVideo\<close>, is answered with a status from 400 to 499, the error built from that
  response is thrown to the caller after this one attempt: nothing is slept, and for the
  video no poll is issued.
\<close>

theorem client_error_aborts_immediately:
  "(env 0 = Resolved r \<and> 400 \<le> status r \<and> status r \<le> 499 \<longrightarrow>
      generateScene env =
        \<lparr>result = Inl (http_error ''NanoBanana API error'' (status r) (text_body r)),
         attempts = 1, slept = []\<rparr>) \<and>
   (cenv 0 = Resolved c \<and> 400 \<le> status c \<and> status c \<le> 499 \<longrightarrow>
      generateVideo cenv penv lat =
        \<lparr>video_outcome = Inl (http_error ''Veo 3.1 create error'' (status c) (text_body c)),
         create_attempts = 1, create_slept = [], video_poll_times = []\<rparr>)"
  using scene_first_4xx video_first_4xx by blast

theorem client_error_aborts_immediately_witness:
  "generateScene (\<lambda>k. Resolved \<lparr>status = 400, text_body = ''bad prompt'', json_body = Inl ''no JSON''\<rparr>) =
     \<lparr>result = Inl ''NanoBanana API error (400): bad prompt'', attempts = 1, slept = []\<rparr> \<and>
   generateVideo (\<lambda>k. Resolved \<lparr>status = 404, text_body = ''no such model'', json_body = Inl ''no JSON''\<rparr>)
       (\<lambda>k. Rejected ''unused'') (\<lambda>k. 0) =
     \<lparr>video_outcome = Inl ''Veo 3.1 create error (404): no such model'',
      create_attempts = 1, create_slept = [], video_poll_times = []\<rparr>"
  using client_error_aborts_immediately
          [of "\<lambda>k. Resolved \<lparr>status = 400, text_body = ''bad prompt'', json_body = Inl ''no JSON''\<rparr>"
              "\<lparr>status = 400, text_body = ''bad prompt'', json_body = Inl ''no JSON''\<rparr>"
              "\<lambda>k. Resolved \<lparr>status = 404, text_body = ''no such model'', json_body = Inl ''no JSON''\<rparr>"
              "\<lparr>status = 404, text_body = ''no such model'', json_body = Inl ''no JSON''\<rparr>"
              "\<lambda>k. Rejected ''unused''" "\<lambda>k. 0"]
  by (simp add: http_error_def decimal.simps digit_char_def)

text \<open>A first attempt that succeeds ends the loop with nothing slept.\<close>

lemma generateScene_first_success:
  assumes "scene_try (env 0) = Returned r"
  shows "generateScene env = \<lparr>result = Inr r, attempts = 1, slept = []\<rparr>"
  unfolding generateScene_def
  by (subst scene_loop.simps) (simp add: assms MAX_RETRIES_def backoff_def)

lemma create_first_success:
  assumes "create_try (env 0) = Returned g"
  shows "create_loop env 0 None [] = \<lparr>result = Inr g, attempts = 1, slept = []\<rparr>"
  by (subst create_loop.simps) (simp add: assms MAX_RETRIES_def backoff_def)

section \<open>The polling loop\<close>

lemma timeout_error_eq: "timeout_error = ''Video generation timed out after 300s''"
  by (simp add: timeout_error_def TIMEOUT_MS_def decimal.simps digit_char_def)

lemma poll_loop_step:
  assumes "elapsed < TIMEOUT_MS"
  shows "poll_loop env lat gid elapsed errs issued =
           (case poll_once (env (length issued)) gid errs of
              Done v \<Rightarrow> \<lparr>outcome = Inr v, poll_times = issued @ [elapsed + POLL_INTERVAL_MS]\<rparr>
            | Thrown m \<Rightarrow> \<lparr>outcome = Inl m, poll_times = issued @ [elapsed + POLL_INTERVAL_MS]\<rparr>
            | Again errs' \<Rightarrow>
                poll_loop env lat gid (elapsed + POLL_INTERVAL_MS + lat (length issued)) errs'
                  (issued @ [elapsed + POLL_INTERVAL_MS]))"
  using assms by (subst poll_loop.simps) simp

lemma poll_loop_over:
  assumes "TIMEOUT_MS \<le> elapsed"
  shows "poll_loop env lat gid elapsed errs issued =
           \<lparr>outcome = Inl timeout_error, poll_times = issued\<rparr>"
  using assms by (subst poll_loop.simps) simp

lemma poll_catch_business:
  "js_includes m ''failed'' \<or> js_includes m ''completed'' \<Longrightarrow> poll_catch m errs = Thrown m"
  by (auto simp: poll_catch_def)

lemma poll_once_completed:
  assumes "ok r" "json_body r = Inr d" "job_status d = ''completed''"
  shows "poll_once (Resolved r) gid errs =
           (case video_url d of
              Some u \<Rightarrow>
                if u \<noteq> [] then
                  Done \<lparr>videoUrl = u, generationId = gid,
                        videoCreditsUsed = credits_or_zero (poll_credits_used d)\<rparr>
                else Thrown ''Video completed but no URL found in response''
            | None \<Rightarrow> Thrown ''Video completed but no URL found in response'')"
proof -
  have c: "poll_catch ''Video completed but no URL found in response'' 0 =
             Thrown ''Video completed but no URL found in response''"
    by (rule poll_catch_business) simp
  have s: "\<not> status r \<ge> 500" using assms(1) by (simp add: ok_def)
  show ?thesis
    using c s assms by (simp add: poll_once_def poll_try_def split: option.splits)
qed

lemma poll_once_failed:
  assumes "ok r" "json_body r = Inr d" "job_status d = ''failed'' \<or> job_status d = ''error''"
  shows "poll_once (Resolved r) gid errs =
           Thrown (''Video generation failed: '' @ message_or_unknown (error_message d))"
proof -
  let ?m = "''Video generation failed: '' @ message_or_unknown (error_message d)"
  have "js_includes ?m ''failed''"
    by (rule js_includes_append_left) simp
  then have c: "poll_catch ?m 0 = Thrown ?m"
    by (simp add: poll_catch_business)
  have s: "\<not> status r \<ge> 500" using assms(1) by (simp add: ok_def)
  have "poll_try (Resolved r) gid errs = PCaught ?m 0"
    using s assms by (auto simp: poll_try_def)
  then show ?thesis
    by (simp only: poll_once_def poll_tried.case c)
qed

lemma poll_loop_failed:
  assumes "elapsed < TIMEOUT_MS" "env (length issued) = Resolved r" "ok r" "json_body r = Inr d"
    "job_status d = ''failed'' \<or> job_status d = ''error''"
  shows "poll_loop env lat gid elapsed errs issued =
           \<lparr>outcome = Inl (''Video generation failed: '' @ message_or_unknown (error_message d)),
            poll_times = issued @ [elapsed + POLL_INTERVAL_MS]\<rparr>"
  by (simp only: poll_loop_step [OF assms(1)] assms(2) poll_once_failed [OF assms(3,4,5)]
        poll_step.case)

lemma poll_once_pending:
  assumes "pending f"
  shows "poll_once f gid errs = Again 0"
proof (cases f)
  case (Rejected m)
  then show ?thesis using assms by (simp add: pending_def)
next
  case (Resolved r)
  then have o: "ok r" using assms by (simp add: pending_def)
  then have s: "\<not> status r \<ge> 500" by (simp add: ok_def)
  show ?thesis
    using assms Resolved o s
    by (auto simp: pending_def poll_once_def poll_try_def split: sum.splits)
qed

lemma poll_loop_resets:
  assumes "elapsed < TIMEOUT_MS" "pending (env (length issued))"
  shows "poll_loop env lat gid elapsed errs issued =
           poll_loop env lat gid (elapsed + POLL_INTERVAL_MS + lat (length issued)) 0
             (issued @ [elapsed + POLL_INTERVAL_MS])"
  by (simp add: poll_loop_step [OF assms(1)] poll_once_pending [OF assms(2)])

lemma generateVideo_polls:
  assumes "result (create_loop cenv 0 None []) = Inr gid"
  shows "video_outcome (generateVideo cenv penv lat) = outcome (poll_loop penv lat gid 0 0 [])"
    and "video_poll_times (generateVideo cenv penv lat) = poll_times (poll_loop penv lat gid 0 0 [])"
  using assms by (simp_all add: generateVideo_def Let_def)


lemma generateVideo_run:
  assumes "result (create_loop cenv 0 None []) = Inr gid"
  shows "generateVideo cenv penv lat =
           \<lparr>video_outcome = outcome (poll_loop penv lat gid 0 0 []),
            create_attempts = attempts (create_loop cenv 0 None []),
            create_slept = slept (create_loop cenv 0 None []),
            video_poll_times = poll_times (poll_loop penv lat gid 0 0 [])\<rparr>"
  using assms by (simp add: generateVideo_def Let_def)


text \<open>
  \<open>counter_before\<close> follows the loop: when it is \<open>Some c\<close> at \<open>n\<close>, the run from the
  start of polling arrives at the loop head before poll \<open>n\<close> with the clock at
  \<open>head_time lat n\<close>, the counter at \<open>c\<close> and the polls \<open>0\<close> to \<open>n - 1\<close> issued.
\<close>

lemma counter_before_run:
  "counter_before env lat gid n = Some c \<Longrightarrow>
   poll_loop env lat gid 0 0 [] =
     poll_loop env lat gid (head_time lat n) c (map (issue_time lat) [0..<n])"
proof (induction n arbitrary: c)
  case 0
  then show ?case by simp
next
  case (Suc n)
  from Suc.prems obtain c0 where
    c0: "counter_before env lat gid n = Some c0" and
    t: "head_time lat n < TIMEOUT_MS" and
    p: "poll_once (env n) gid c0 = Again c"
    by (auto split: option.splits if_splits poll_step.splits)
  have "poll_loop env lat gid 0 0 [] =
          poll_loop env lat gid (head_time lat n) c0 (map (issue_time lat) [0..<n])"
    by (rule Suc.IH [OF c0])
  also have "\<dots> = poll_loop env lat gid (head_time lat (Suc n)) c (map (issue_time lat) [0..<Suc n])"
    by (simp add: poll_loop_step [OF t] p issue_time_def)
  finally show ?case .
qed


lemma run_ends_thrown:
  assumes "counter_before env lat gid n = Some c" "head_time lat n < TIMEOUT_MS"
    "poll_once (env n) gid c = Thrown m"
  shows "poll_loop env lat gid 0 0 [] =
           \<lparr>outcome = Inl m, poll_times = map (issue_time lat) [0..<Suc n]\<rparr>"
  by (simp add: counter_before_run [OF assms(1)] poll_loop_step [OF assms(2)] assms(3)
        issue_time_def)









lemma run_completed:
  assumes g: "result (create_loop cenv 0 None []) = Inr gid"
    and c: "counter_before env lat gid n = Some c" and t: "head_time lat n < TIMEOUT_MS"
    and r: "env n = Resolved r" "ok r" "json_body r = Inr d" "job_status d = ''completed''"
  shows "generateVideo cenv env lat =
           \<lparr>video_outcome =
              (case video_url d of
                 Some u \<Rightarrow>
                   if u \<noteq> [] then
                     Inr \<lparr>videoUrl = u, generationId = gid,
                          videoCreditsUsed = credits_or_zero (poll_credits_used d)\<rparr>
                   else Inl ''Video completed but no URL found in response''
               | None \<Rightarrow> Inl ''Video completed but no URL found in response''),
            create_attempts = attempts (create_loop cenv 0 None []),
            create_slept = slept (create_loop cenv 0 None []),
            video_poll_times = map (issue_time lat) [0..<Suc n]\<rparr>"
proof -
  have "poll_loop env lat gid 0 0 [] =
          \<lparr>outcome =
              (case video_url d of
                 Some u \<Rightarrow>
                   if u \<noteq> [] then
                     Inr \<lparr>videoUrl = u, generationId = gid,
                          videoCreditsUsed = credits_or_zero (poll_credits_used d)\<rparr>
                   else Inl ''Video completed but no URL found in response''
               | None \<Rightarrow> Inl ''Video completed but no URL found in response''),
           poll_times = map (issue_time lat) [0..<Suc n]\<rparr>"
    using r
    by (simp add: counter_before_run [OF c] poll_loop_step [OF t] poll_once_completed
          issue_time_def split: option.splits)
  then show ?thesis by (simp add: generateVideo_run [OF g])
qed

lemma run_failed:
  assumes g: "result (create_loop cenv 0 None []) = Inr gid"
    and c: "counter_before env lat gid n = Some c" and t: "head_time lat n < TIMEOUT_MS"
    and r: "env n = Resolved r" "ok r" "json_body r = Inr d"
      "job_status d = ''failed'' \<or> job_status d = ''error''"
  shows "generateVideo cenv env lat =
           \<lparr>video_outcome =
              Inl (''Video generation failed: '' @ message_or_unknown (error_message d)),
            create_attempts = attempts (create_loop cenv 0 None []),
            create_slept = slept (create_loop cenv 0 None []),
            video_poll_times = map (issue_time lat) [0..<Suc n]\<rparr>"
proof -
  have p: "poll_once (env n) gid c =
             Thrown (''Video generation failed: '' @ message_or_unknown (error_message d))"
    by (simp only: r(1) poll_once_failed [OF r(2,3,4)])
  show ?thesis
    by (simp only: generateVideo_run [OF g] run_ends_thrown [OF c t p] polled.simps)
qed

text \<open>
  Claim C8. A poll of \<^verbatim>\<open>generateVideo\<close> answered 2xx whose parsed body reports the
  status \<^verbatim>\<open>completed\<close> ends the polling at once, from whatever state the loop is in.
  With a video URL in the body the operation returns it, together with the generation
  id of step 1 and the credits used; without one (absent or empty) the operation throws
  \<^verbatim>\<open>Video completed but no URL found in response\<close>. In both cases the polls issued are
  those up to this one and no more.
\<close>

theorem completed_poll_ends_polling:
  "(elapsed < TIMEOUT_MS \<and> env (length issued) = Resolved r \<and> ok r \<and> json_body r = Inr d \<and>
    job_status d = ''completed'' \<and> video_url d = Some u \<and> u \<noteq> [] \<longrightarrow>
      poll_loop env lat gid elapsed errs issued =
        \<lparr>outcome = Inr \<lparr>videoUrl = u, generationId = gid,
                         videoCreditsUsed = credits_or_zero (poll_credits_used d)\<rparr>,
         poll_times = issued @ [elapsed + POLL_INTERVAL_MS]\<rparr>) \<and>
   (elapsed < TIMEOUT_MS \<and> env (length issued) = Resolved r \<and> ok r \<and> json_body r = Inr d \<and>
    job_status d = ''completed'' \<and> \<not> truthy (video_url d) \<longrightarrow>
      poll_loop env lat gid elapsed errs issued =
        \<lparr>outcome = Inl ''Video completed but no URL found in response'',
         poll_times = issued @ [elapsed + POLL_INTERVAL_MS]\<rparr>) \<and>
   (result (create_loop cenv 0 None []) = Inr gid \<and>
    counter_before env lat gid n = Some c \<and> head_time lat n < TIMEOUT_MS \<and>
    env n = Resolved r \<and> ok r \<and> json_body r = Inr d \<and>
    job_status d = ''completed'' \<and> video_url d = Some u \<and> u \<noteq> [] \<longrightarrow>
      generateVideo cenv env lat =
        \<lparr>video_outcome = Inr \<lparr>videoUrl = u, generationId = gid,
                               videoCreditsUsed = credits_or_zero (poll_credits_used d)\<rparr>,
         create_attempts = attempts (create_loop cenv 0 None []),
         create_slept = slept (create_loop cenv 0 None []),
         video_poll_times = map (issue_time lat) [0..<Suc n]\<rparr>) \<and>
   (result (create_loop cenv 0 None []) = Inr gid \<and>
    counter_before env lat gid n = Some c \<and> head_time lat n < TIMEOUT_MS \<and>
    env n = Resolved r \<and> ok r \<and> json_body r = Inr d \<and>
    job_status d = ''completed'' \<and> \<not> truthy (video_url d) \<longrightarrow>
      generateVideo cenv env lat =
        \<lparr>video_outcome = Inl ''Video completed but no URL found in response'',
         create_attempts = attempts (create_loop cenv 0 None []),
         create_slept = slept (create_loop cenv 0 None []),
         video_poll_times = map (issue_time lat) [0..<Suc n]\<rparr>)"
proof (intro conjI impI; elim conjE)
  assume "elapsed < TIMEOUT_MS" "env (length issued) = Resolved r" "ok r" "json_body r = Inr d"
    "job_status d = ''completed''" "video_url d = Some u" "u \<noteq> []"
  then show "poll_loop env lat gid elapsed errs issued =
        \<lparr>outcome = Inr \<lparr>videoUrl = u, generationId = gid,
                         videoCreditsUsed = credits_or_zero (poll_credits_used d)\<rparr>,
         poll_times = issued @ [elapsed + POLL_INTERVAL_MS]\<rparr>"
    by (simp add: poll_loop_step poll_once_completed)
next
  assume "elapsed < TIMEOUT_MS" "env (length issued) = Resolved r" "ok r" "json_body r = Inr d"
    "job_status d = ''completed''" "\<not> truthy (video_url d)"
  then show "poll_loop env lat gid elapsed errs issued =
        \<lparr>outcome = Inl ''Video completed but no URL found in response'',
         poll_times = issued @ [elapsed + POLL_INTERVAL_MS]\<rparr>"
    by (auto simp: poll_loop_step poll_once_completed split: option.splits)
next
  assume a: "result (create_loop cenv 0 None []) = Inr gid"
    "counter_before env lat gid n = Some c" "head_time lat n < TIMEOUT_MS"
    "env n = Resolved r" "ok r" "json_body r = Inr d" "job_status d = ''completed''"
    and u: "video_url d = Some u" "u \<noteq> []"
  show "generateVideo cenv env lat =
        \<lparr>video_outcome = Inr \<lparr>videoUrl = u, generationId = gid,
                               videoCreditsUsed = credits_or_zero (poll_credits_used d)\<rparr>,
         create_attempts = attempts (create_loop cenv 0 None []),
         create_slept = slept (create_loop cenv 0 None []),
         video_poll_times = map (issue_time lat) [0..<Suc n]\<rparr>"
    using u by (simp add: run_completed [OF a])
next
  assume a: "result (create_loop cenv 0 None []) = Inr gid"
    "counter_before env lat gid n = Some c" "head_time lat n < TIMEOUT_MS"
    "env n = Resolved r" "ok r" "json_body r = Inr d" "job_status d = ''completed''"
    and u: "\<not> truthy (video_url d)"
  show "generateVideo cenv env lat =
        \<lparr>video_outcome = Inl ''Video completed but no URL found in response'',
         create_attempts = attempts (create_loop cenv 0 None []),
         create_slept = slept (create_loop cenv 0 None []),
         video_poll_times = map (issue_time lat) [0..<Suc n]\<rparr>"
    using u by (cases "video_url d") (simp_all add: run_completed [OF a])
qed

lemma scene_answer_returned:
  "u \<noteq> [] \<Longrightarrow>
   scene_try (Resolved (scene_answer u used)) =
     Returned \<lparr>imageUrl = u, creditsUsed = credits_or_zero used\<rparr>"
  by (simp add: scene_try_def scene_answer_def ok_def extract_image_url_def js_or_def)

lemma created_answer_returned:
  "g \<noteq> [] \<Longrightarrow> create_try (Resolved (created_answer g)) = Returned g"
  by (simp add: create_try_def created_answer_def ok_def)

lemma example_created:
  "create_loop (always (Resolved (created_answer ''job-1''))) 0 None [] =
     \<lparr>result = Inr ''job-1'', attempts = 1, slept = []\<rparr>"
  by (rule create_first_success) (simp add: always_def created_answer_returned)

theorem completed_poll_ends_polling_witness:
  "generateVideo (always (Resolved (created_answer ''job-1'')))
       (\<lambda>k. Resolved (poll_answer
               (if k = 0 then ''queued'' else if k = 1 then ''generating'' else ''completed'')
               (if k < 2 then None else Some ''https://example/video.mp4'') (Some 250)))
       (always 0) =
     \<lparr>video_outcome = Inr \<lparr>videoUrl = ''https://example/video.mp4'', generationId = ''job-1'',
                            videoCreditsUsed = 250\<rparr>,
      create_attempts = 1, create_slept = [], video_poll_times = [10000, 20000, 30000]\<rparr> \<and>
   generateVideo (always (Resolved (created_answer ''job-1'')))
       (always (Resolved (poll_answer ''completed'' None (Some 250)))) (always 0) =
     \<lparr>video_outcome = Inl ''Video completed but no URL found in response'',
      create_attempts = 1, create_slept = [], video_poll_times = [10000]\<rparr>"
proof (intro conjI)
  let ?env = "\<lambda>k. Resolved (poll_answer
               (if k = 0 then ''queued'' else if k = 1 then ''generating'' else ''completed'')
               (if k < 2 then None else Some ''https://example/video.mp4'') (Some 250))"
  have c: "counter_before ?env (always 0) ''job-1'' (Suc (Suc 0)) = Some 0"
    by (simp add: poll_once_def poll_try_def poll_answer_def ok_def always_def TIMEOUT_MS_def
          POLL_INTERVAL_MS_def)
  show "generateVideo (always (Resolved (created_answer ''job-1''))) ?env (always 0) =
     \<lparr>video_outcome = Inr \<lparr>videoUrl = ''https://example/video.mp4'', generationId = ''job-1'',
                            videoCreditsUsed = 250\<rparr>,
      create_attempts = 1, create_slept = [], video_poll_times = [10000, 20000, 30000]\<rparr>"
    using completed_poll_ends_polling
            [where cenv = "always (Resolved (created_answer ''job-1''))" and gid = "''job-1''"
               and env = ?env and lat = "always 0" and n = "Suc (Suc 0)" and c = 0
               and r = "poll_answer ''completed'' (Some ''https://example/video.mp4'') (Some 250)"
               and d = "\<lparr>job_status = ''completed'', video_url = Some ''https://example/video.mp4'',
                          poll_credits_used = Some 250, error_message = None\<rparr>"
               and u = "''https://example/video.mp4''",
             THEN conjunct2, THEN conjunct2, THEN conjunct1]
          c
    by (simp add: example_created poll_answer_def ok_def always_def TIMEOUT_MS_def
          POLL_INTERVAL_MS_def issue_time_def credits_or_zero_def)
  show "generateVideo (always (Resolved (created_answer ''job-1'')))
       (always (Resolved (poll_answer ''completed'' None (Some 250)))) (always 0) =
     \<lparr>video_outcome = Inl ''Video completed but no URL found in response'',
      create_attempts = 1, create_slept = [], video_poll_times = [10000]\<rparr>"
    using completed_poll_ends_polling
            [where cenv = "always (Resolved (created_answer ''job-1''))" and gid = "''job-1''"
               and env = "always (Resolved (poll_answer ''completed'' None (Some 250)))"
               and lat = "always 0" and n = 0 and c = 0
               and r = "poll_answer ''completed'' None (Some 250)"
               and d = "\<lparr>job_status = ''completed'', video_url = None,
                          poll_credits_used = Some 250, error_message = None\<rparr>",
             THEN conjunct2, THEN conjunct2, THEN conjunct2]
    by (simp add: example_created poll_answer_def ok_def always_def TIMEOUT_MS_def
          POLL_INTERVAL_MS_def issue_time_def)
qed


text \<open>
  Claim C9. A poll of \<^verbatim>\<open>generateVideo\<close> answered 2xx whose parsed body reports the
  status \<^verbatim>\<open>failed\<close> or \<^verbatim>\<open>error\<close> ends the polling at once, whatever the count of
  consecutive poll errors: the operation throws \<^verbatim>\<open>Video generation failed:\<close> followed by
  the remote message when one is present and by \<^verbatim>\<open>Unknown error\<close> otherwise. The polls
  issued are those up to this one and no more, the attempts of step 1 are those made
  before polling began, and the endpoint answers 500 with this message, leaving the
  ledger as it was.
\<close>

theorem failed_poll_is_not_retried:
  "(elapsed < TIMEOUT_MS \<and> env (length issued) = Resolved r \<and> ok r \<and> json_body r = Inr d \<and>
    (job_status d = ''failed'' \<or> job_status d = ''error'') \<and>
    error_message d = Some m \<and> m \<noteq> [] \<longrightarrow>
      poll_loop env lat gid elapsed errs issued =
        \<lparr>outcome = Inl (''Video generation failed: '' @ m),
         poll_times = issued @ [elapsed + POLL_INTERVAL_MS]\<rparr>) \<and>
   (elapsed < TIMEOUT_MS \<and> env (length issued) = Resolved r \<and> ok r \<and> json_body r = Inr d \<and>
    (job_status d = ''failed'' \<or> job_status d = ''error'') \<and>
    \<not> truthy (error_message d) \<longrightarrow>
      poll_loop env lat gid elapsed errs issued =
        \<lparr>outcome = Inl ''Video generation failed: Unknown error'',
         poll_times = issued @ [elapsed + POLL_INTERVAL_MS]\<rparr>) \<and>
   (result (create_loop cenv 0 None []) = Inr gid \<and>
    counter_before env lat gid n = Some c \<and> head_time lat n < TIMEOUT_MS \<and>
    env n = Resolved r \<and> ok r \<and> json_body r = Inr d \<and>
    (job_status d = ''failed'' \<or> job_status d = ''error'') \<longrightarrow>
      generateVideo cenv env lat =
        \<lparr>video_outcome =
           Inl (''Video generation failed: '' @ message_or_unknown (error_message d)),
         create_attempts = attempts (create_loop cenv 0 None []),
         create_slept = slept (create_loop cenv 0 None []),
         video_poll_times = map (issue_time lat) [0..<Suc n]\<rparr>) \<and>
   (result (create_loop cenv 0 None []) = Inr gid \<and>
    counter_before env lat gid n = Some c \<and> head_time lat n < TIMEOUT_MS \<and>
    env n = Resolved r \<and> ok r \<and> json_body r = Inr d \<and>
    (job_status d = ''failed'' \<or> job_status d = ''error'') \<and>
    truthy (sceneImageUrl vreq) \<and> truthy (videoPrompt vreq) \<longrightarrow>
      post_generate_video cenv env lat now vreq s =
        (s, Reply500 (''Video generation failed: '' @ message_or_unknown (error_message d))))"
proof (intro conjI impI; elim conjE)
  assume a: "elapsed < TIMEOUT_MS" "env (length issued) = Resolved r" "ok r" "json_body r = Inr d"
    "job_status d = ''failed'' \<or> job_status d = ''error''"
    and m: "error_message d = Some m" "m \<noteq> []"
  have "message_or_unknown (error_message d) = m"
    using m by (simp add: message_or_unknown_def)
  then show "poll_loop env lat gid elapsed errs issued =
        \<lparr>outcome = Inl (''Video generation failed: '' @ m),
         poll_times = issued @ [elapsed + POLL_INTERVAL_MS]\<rparr>"
    using poll_loop_failed [where env = env and issued = issued and lat = lat and gid = gid and errs = errs, OF a]
    by simp
next
  assume a: "elapsed < TIMEOUT_MS" "env (length issued) = Resolved r" "ok r" "json_body r = Inr d"
    "job_status d = ''failed'' \<or> job_status d = ''error''"
    and m: "\<not> truthy (error_message d)"
  have "message_or_unknown (error_message d) = ''Unknown error''"
    using m by (cases "error_message d") (simp_all add: message_or_unknown_def)
  then show "poll_loop env lat gid elapsed errs issued =
        \<lparr>outcome = Inl ''Video generation failed: Unknown error'',
         poll_times = issued @ [elapsed + POLL_INTERVAL_MS]\<rparr>"
    using poll_loop_failed [where env = env and issued = issued and lat = lat and gid = gid and errs = errs, OF a]
    by simp
next
  assume a: "result (create_loop cenv 0 None []) = Inr gid"
    "counter_before env lat gid n = Some c" "head_time lat n < TIMEOUT_MS"
    "env n = Resolved r" "ok r" "json_body r = Inr d"
    "job_status d = ''failed'' \<or> job_status d = ''error''"
  show "generateVideo cenv env lat =
        \<lparr>video_outcome =
           Inl (''Video generation failed: '' @ message_or_unknown (error_message d)),
         create_attempts = attempts (create_loop cenv 0 None []),
         create_slept = slept (create_loop cenv 0 None []),
         video_poll_times = map (issue_time lat) [0..<Suc n]\<rparr>"
    by (rule run_failed [OF a])
next
  assume a: "result (create_loop cenv 0 None []) = Inr gid"
    "counter_before env lat gid n = Some c" "head_time lat n < TIMEOUT_MS"
    "env n = Resolved r" "ok r" "json_body r = Inr d"
    "job_status d = ''failed'' \<or> job_status d = ''error''"
    and q: "truthy (sceneImageUrl vreq)" "truthy (videoPrompt vreq)"
  have "video_outcome (generateVideo cenv env lat) =
          Inl (''Video generation failed: '' @ message_or_unknown (error_message d))"
    by (simp only: run_failed [OF a] video_run.simps)
  then show "post_generate_video cenv env lat now vreq s =
        (s, Reply500 (''Video generation failed: '' @ message_or_unknown (error_message d)))"
    using q by (simp add: post_generate_video_def)
qed

theorem failed_poll_is_not_retried_witness:
  "generateVideo (always (Resolved (created_answer ''job-1'')))
       (answers_then 1 (poll_answer ''queued'' None None)
          \<lparr>status = 200, text_body = [], json_body = Inr
             \<lparr>job_status = ''failed'', video_url = None, poll_credits_used = None,
              error_message = Some ''content policy''\<rparr>\<rparr>)
       (always 0) =
     \<lparr>video_outcome = Inl ''Video generation failed: content policy'',
      create_attempts = 1, create_slept = [], video_poll_times = [10000, 20000]\<rparr> \<and>
   post_generate_video (always (Resolved (created_answer ''job-1'')))
       (always (Resolved (poll_answer ''error'' None None))) (always 0)
       ''2026-01-01T00:00:00.000Z''
       \<lparr>sceneImageUrl = Some ''https://example/scene.png'', videoPrompt = Some ''they talk''\<rparr>
       \<lparr>creditsUsedTotal = 1000, credits_file = Absent\<rparr> =
     (\<lparr>creditsUsedTotal = 1000, credits_file = Absent\<rparr>,
      Reply500 ''Video generation failed: Unknown error'')"
proof (intro conjI)
  let ?env = "answers_then 1 (poll_answer ''queued'' None None)
          \<lparr>status = 200, text_body = [], json_body = Inr
             \<lparr>job_status = ''failed'', video_url = None, poll_credits_used = None,
              error_message = Some ''content policy''\<rparr>\<rparr>"
  have c: "counter_before ?env (always 0) ''job-1'' (Suc 0) = Some 0"
    by (simp add: poll_once_def poll_try_def poll_answer_def answers_then_def ok_def
          TIMEOUT_MS_def)
  show "generateVideo (always (Resolved (created_answer ''job-1''))) ?env (always 0) =
     \<lparr>video_outcome = Inl ''Video generation failed: content policy'',
      create_attempts = 1, create_slept = [], video_poll_times = [10000, 20000]\<rparr>"
    using failed_poll_is_not_retried
            [where cenv = "always (Resolved (created_answer ''job-1''))" and gid = "''job-1''"
               and env = ?env and lat = "always 0" and n = "Suc 0" and c = 0
               and r = "\<lparr>status = 200, text_body = [], json_body = Inr
                          \<lparr>job_status = ''failed'', video_url = None, poll_credits_used = None,
                           error_message = Some ''content policy''\<rparr>\<rparr>"
               and d = "\<lparr>job_status = ''failed'', video_url = None, poll_credits_used = None,
                          error_message = Some ''content policy''\<rparr>",
             THEN conjunct2, THEN conjunct2, THEN conjunct1]
          c
    by (simp add: example_created answers_then_def ok_def always_def TIMEOUT_MS_def
          POLL_INTERVAL_MS_def issue_time_def message_or_unknown_def)
  show "post_generate_video (always (Resolved (created_answer ''job-1'')))
       (always (Resolved (poll_answer ''error'' None None))) (always 0)
       ''2026-01-01T00:00:00.000Z''
       \<lparr>sceneImageUrl = Some ''https://example/scene.png'', videoPrompt = Some ''they talk''\<rparr>
       \<lparr>creditsUsedTotal = 1000, credits_file = Absent\<rparr> =
     (\<lparr>creditsUsedTotal = 1000, credits_file = Absent\<rparr>,
      Reply500 ''Video generation failed: Unknown error'')"
    using failed_poll_is_not_retried
            [where cenv = "always (Resolved (created_answer ''job-1''))" and gid = "''job-1''"
               and env = "always (Resolved (poll_answer ''error'' None None))"
               and lat = "always 0" and n = 0 and c = 0
               and r = "poll_answer ''error'' None None"
               and d = "\<lparr>job_status = ''error'', video_url = None, poll_credits_used = None,
                          error_message = None\<rparr>"
               and vreq = "\<lparr>sceneImageUrl = Some ''https://example/scene.png'',
                             videoPrompt = Some ''they talk''\<rparr>"
               and now = "''2026-01-01T00:00:00.000Z''"
               and s = "\<lparr>creditsUsedTotal = 1000, credits_file = Absent\<rparr>",
             THEN conjunct2, THEN conjunct2, THEN conjunct2]
    by (simp add: example_created poll_answer_def ok_def always_def TIMEOUT_MS_def
          message_or_unknown_def)
qed






lemma poll_times_bounded:
  "(\<forall>t\<in>set issued. t < TIMEOUT_MS + POLL_INTERVAL_MS) \<Longrightarrow>
   (\<forall>t\<in>set (poll_times (poll_loop env lat gid elapsed errs issued)).
      t < TIMEOUT_MS + POLL_INTERVAL_MS)"
proof (induction env lat gid elapsed errs issued rule: poll_loop.induct)
  case (1 env lat gid elapsed errs issued)
  show ?case
  proof (cases "elapsed < TIMEOUT_MS")
    case True
    then have b: "\<forall>t\<in>set (issued @ [elapsed + POLL_INTERVAL_MS]). t < TIMEOUT_MS + POLL_INTERVAL_MS"
      using "1.prems" by auto
    show ?thesis
    proof (cases "poll_once (env (length issued)) gid errs")
      case (Done v)
      then show ?thesis using b by (simp add: poll_loop_step [OF True])
    next
      case (Thrown m)
      then show ?thesis using b by (simp add: poll_loop_step [OF True])
    next
      case (Again e)
      then show ?thesis
        using "1.IH" [OF True Again b] by (simp add: poll_loop_step [OF True])
    qed
  next
    case False
    then show ?thesis using "1.prems" by (simp add: poll_loop_over)
  qed
qed

lemma poll_count_bounded:
  "length issued * POLL_INTERVAL_MS < TIMEOUT_MS + POLL_INTERVAL_MS \<Longrightarrow>
   length issued * POLL_INTERVAL_MS \<le> elapsed \<Longrightarrow>
   length (poll_times (poll_loop env lat gid elapsed errs issued)) * POLL_INTERVAL_MS
     < TIMEOUT_MS + POLL_INTERVAL_MS"
proof (induction env lat gid elapsed errs issued rule: poll_loop.induct)
  case (1 env lat gid elapsed errs issued)
  show ?case
  proof (cases "elapsed < TIMEOUT_MS")
    case True
    have b: "length (issued @ [elapsed + POLL_INTERVAL_MS]) * POLL_INTERVAL_MS
               < TIMEOUT_MS + POLL_INTERVAL_MS"
      using True "1.prems"(2) by simp
    have c: "length (issued @ [elapsed + POLL_INTERVAL_MS]) * POLL_INTERVAL_MS
               \<le> elapsed + POLL_INTERVAL_MS + lat (length issued)"
      using "1.prems"(2) by simp
    show ?thesis
    proof (cases "poll_once (env (length issued)) gid errs")
      case (Done v)
      then show ?thesis using b by (simp add: poll_loop_step [OF True])
    next
      case (Thrown m)
      then show ?thesis using b by (simp add: poll_loop_step [OF True])
    next
      case (Again e)
      then show ?thesis
        using "1.IH" [OF True Again b c] by (simp add: poll_loop_step [OF True])
    qed
  next
    case False
    then show ?thesis using "1.prems" by (simp add: poll_loop_over)
  qed
qed

lemma poll_count_at_most_30:
  "length (poll_times (poll_loop env lat gid 0 0 [])) \<le> 30"
  using poll_count_bounded [of "[]" 0 env lat gid 0]
  by (simp add: TIMEOUT_MS_def POLL_INTERVAL_MS_def)

lemma all_pending_times_out:
  "(\<forall>k. pending (env k)) \<Longrightarrow>
   outcome (poll_loop env lat gid elapsed errs issued) = Inl timeout_error"
proof (induction env lat gid elapsed errs issued rule: poll_loop.induct)
  case (1 env lat gid elapsed errs issued)
  show ?case
  proof (cases "elapsed < TIMEOUT_MS")
    case True
    have p: "poll_once (env (length issued)) gid errs = Again 0"
      using "1.prems" by (simp add: poll_once_pending)
    show ?thesis
      using "1.IH" [OF True p "1.prems"] by (simp add: poll_loop_step [OF True] p)
  next
    case False
    then show ?thesis by (simp add: poll_loop_over)
  qed
qed



text \<open>
  A rejected fetch whose message contains \<^verbatim>\<open>failed\<close> is rethrown by the second filter of
  the \<^verbatim>\<open>catch\<close> block at its first occurrence, whatever the counter.
\<close>

lemma rejection_mentioning_failed_is_rethrown:
  "poll_loop (\<lambda>k. Rejected ''request to https://api.aimlapi.com/v2/video/generations failed, reason: socket hang up'')
       (\<lambda>k. 0) ''job-1'' 0 0 [] =
     \<lparr>outcome = Inl ''request to https://api.aimlapi.com/v2/video/generations failed, reason: socket hang up'',
      poll_times = [10000]\<rparr>"
proof -
  let ?m = "''request to https://api.aimlapi.com/v2/video/generations failed, reason: socket hang up''"
  have "js_includes ?m ''failed''" by simp
  then have "poll_catch ?m 0 = Thrown ?m" by (intro poll_catch_business disjI1)
  then have "poll_once (Rejected ?m) ''job-1'' 0 = Thrown ?m"
    by (simp only: poll_once_def poll_try_def fetch_result.case poll_tried.case)
  then show ?thesis
    by (simp add: poll_loop_step TIMEOUT_MS_def POLL_INTERVAL_MS_def)
qed

text \<open>
  Claim C6, amended. The ceiling is tested at the head of each iteration only, before the
  sleep. Once \<open>TIMEOUT_MS\<close> has elapsed at the loop head, the operation fails with the
  timeout error whatever the count of consecutive poll errors, and no further poll is
  issued. When every poll is answered with a status still in progress, the operation
  fails with the timeout error. Every poll is issued less than
  \<open>TIMEOUT_MS + POLL_INTERVAL_MS\<close> after the start of polling, and at most 30 polls
  are issued.
\<close>

theorem polling_times_out_at_loop_head:
  "(result (create_loop cenv 0 None []) = Inr gid \<longrightarrow>
      video_outcome (generateVideo cenv env lat) = outcome (poll_loop env lat gid 0 0 []) \<and>
      video_poll_times (generateVideo cenv env lat) = poll_times (poll_loop env lat gid 0 0 [])) \<and>
   (TIMEOUT_MS \<le> elapsed \<longrightarrow>
      poll_loop env lat gid elapsed errs issued =
        \<lparr>outcome = Inl ''Video generation timed out after 300s'', poll_times = issued\<rparr>) \<and>
   ((\<forall>k. pending (env k)) \<longrightarrow>
      outcome (poll_loop env lat gid 0 0 []) = Inl ''Video generation timed out after 300s'') \<and>
   (\<forall>t\<in>set (poll_times (poll_loop env lat gid 0 0 [])). t < TIMEOUT_MS + POLL_INTERVAL_MS) \<and>
   length (poll_times (poll_loop env lat gid 0 0 [])) \<le> 30"
  using generateVideo_polls [of cenv gid env lat]
        poll_loop_over [of elapsed env lat gid errs issued]
        all_pending_times_out [of env lat gid 0 0 "[]"]
        poll_times_bounded [of "[]" env lat gid 0 0]
        poll_count_at_most_30 [of env lat gid]
  unfolding timeout_error_eq
  by simp


theorem polling_times_out_at_loop_head_witness:
  "outcome (poll_loop (\<lambda>k. Resolved \<lparr>status = 200, text_body = [], json_body = Inr
         \<lparr>job_status = ''generating'', video_url = None, poll_credits_used = None,
          error_message = None\<rparr>\<rparr>) (\<lambda>k. 250) ''job-1'' 0 0 []) =
     Inl ''Video generation timed out after 300s'' \<and>
   poll_loop (\<lambda>k. Rejected ''socket hang up'') (\<lambda>k. 250) ''job-1'' 307500 2 [10000, 20250] =
     \<lparr>outcome = Inl ''Video generation timed out after 300s'', poll_times = [10000, 20250]\<rparr>"
  using polling_times_out_at_loop_head
          [where env = "\<lambda>k. Resolved \<lparr>status = 200, text_body = [], json_body = Inr
               \<lparr>job_status = ''generating'', video_url = None, poll_credits_used = None,
                error_message = None\<rparr>\<rparr>"
             and lat = "\<lambda>k. 250" and gid = "''job-1''" and elapsed = 0 and errs = 0 and issued = "[]",
           THEN conjunct2, THEN conjunct2, THEN conjunct1]
        polling_times_out_at_loop_head
          [where env = "\<lambda>k. Rejected ''socket hang up''"
             and lat = "\<lambda>k. 250" and gid = "''job-1''" and elapsed = 307500 and errs = 2
             and issued = "[10000, 20250]", THEN conjunct2, THEN conjunct1]
  by (simp add: pending_def ok_def TIMEOUT_MS_def)

text \<open>
  The first poll is answered, still generating, 289999 ms after it was issued: the loop
  head is reached 299999 ms after the start of polling, the loop sleeps and polls again
  at 309999 ms, and the completed status found then is returned as a success.
\<close>

theorem terminal_status_accepted_after_ceiling:
  "poll_loop (answers_then 1
                \<lparr>status = 200, text_body = [], json_body = Inr
                   \<lparr>job_status = ''generating'', video_url = None, poll_credits_used = None,
                    error_message = None\<rparr>\<rparr>
                \<lparr>status = 200, text_body = [], json_body = Inr
                   \<lparr>job_status = ''completed'', video_url = Some ''https://example/video.mp4'',
                    poll_credits_used = None, error_message = None\<rparr>\<rparr>)
       (first_then 289999 0) ''job-1'' 0 0 [] =
     \<lparr>outcome = Inr \<lparr>videoUrl = ''https://example/video.mp4'', generationId = ''job-1'',
                      videoCreditsUsed = 0\<rparr>,
      poll_times = [10000, 309999]\<rparr> \<and> TIMEOUT_MS < 309999"
proof -
  let ?env = "answers_then 1
                \<lparr>status = 200, text_body = [], json_body = Inr
                   \<lparr>job_status = ''generating'', video_url = None, poll_credits_used = None,
                    error_message = None\<rparr>\<rparr>
                \<lparr>status = 200, text_body = [], json_body = Inr
                   \<lparr>job_status = ''completed'', video_url = Some ''https://example/video.mp4'',
                    poll_credits_used = None, error_message = None\<rparr>\<rparr>"
  have p0: "pending (?env 0)"
    by (simp add: pending_def answers_then_def ok_def)
  have "poll_loop ?env (first_then 289999 0) ''job-1'' 0 0 [] =
        poll_loop ?env (first_then 289999 0) ''job-1'' 299999 0 [10000]"
    using poll_loop_resets [of 0 ?env "[]" "first_then 289999 0" "''job-1''" 0] p0
    by (simp add: TIMEOUT_MS_def POLL_INTERVAL_MS_def first_then_def)
  also have "\<dots> = \<lparr>outcome = Inr \<lparr>videoUrl = ''https://example/video.mp4'',
                                     generationId = ''job-1'', videoCreditsUsed = 0\<rparr>,
                      poll_times = [10000, 309999]\<rparr>"
    by (simp add: poll_loop_step poll_once_completed TIMEOUT_MS_def POLL_INTERVAL_MS_def
          answers_then_def ok_def credits_or_zero_def)
  finally show ?thesis by (simp add: TIMEOUT_MS_def)
qed

section \<open>The ledger\<close>

lemma excess_small: "m < 2 ^ 53 \<Longrightarrow> excess m = 0"
  by (subst excess.simps) simp

lemma round_even_small: "m \<le> 2 ^ 53 \<Longrightarrow> round_even m = m"
proof (cases "m < 2 ^ 53")
  case True
  then show ?thesis by (simp add: round_even_def excess_small)
next
  case False
  assume "m \<le> 2 ^ 53"
  with False have m: "m = 2 ^ 53" by simp
  have "excess (2 ^ 53) = Suc 0"
    by (subst excess.simps) (simp add: excess_small)
  then show ?thesis by (simp add: m round_even_def)
qed

text \<open>An integer of magnitude up to \<open>2 ^ 53\<close> is a double; the next one is not.\<close>

lemma to_double_safe: "\<bar>x\<bar> \<le> 2 ^ 53 \<Longrightarrow> to_double x = x"
proof (cases "x < 0")
  case True
  assume a: "\<bar>x\<bar> \<le> 2 ^ 53"
  have "nat (- x) \<le> 2 ^ 53" using a True by (simp add: nat_le_iff)
  then show ?thesis using True by (simp add: to_double_def round_even_small)
next
  case False
  assume a: "\<bar>x\<bar> \<le> 2 ^ 53"
  have "nat x \<le> 2 ^ 53" using a False by (simp add: nat_le_iff)
  then show ?thesis using False by (simp add: to_double_def round_even_small)
qed

lemma to_double_rounds: "to_double 9007199254740993 = 9007199254740992"
proof -
  have e: "excess 9007199254740993 = Suc 0"
    by (subst excess.simps) (simp add: excess_small)
  have "round_even 9007199254740993 = 9007199254740992"
    by (simp add: round_even_def e Let_def)
  then show ?thesis by (simp add: to_double_def)
qed

lemma js_add_safe:
  "0 \<le> a \<Longrightarrow> 0 < b \<Longrightarrow> a + b \<le> 2 ^ 53 \<Longrightarrow> js_add a b = a + b"
  by (simp add: js_add_def to_double_safe)

lemma load_after_save:
  "loadCredits (credits_file (saveCredits now s)) = JNum (creditsUsedTotal s)"
  by (simp add: loadCredits_def saveCredits_def)

lemma charge_total:
  "c \<noteq> 0 \<Longrightarrow> creditsUsedTotal (charge c now s) = js_add (creditsUsedTotal s) c"
  by (simp add: charge_def saveCredits_def)

lemma load_after_charge:
  "c \<noteq> 0 \<Longrightarrow>
   loadCredits (credits_file (charge c now s)) = JNum (js_add (creditsUsedTotal s) c)"
  by (simp add: charge_def saveCredits_def loadCredits_def)

lemma charge_zero: "charge 0 now s = s"
  by (simp add: charge_def)

lemma scene_endpoint_success:
  assumes "portraitA req \<noteq> None" "portraitB req \<noteq> None" "truthy (scenario req)"
    "result (generateScene env) = Inr r"
  shows "post_generate_scene env now req s =
           (charge (creditsUsed r) now s,
            SceneReply (imageUrl r) (creditsUsed r)
              (STARTING_CREDITS - creditsUsedTotal (charge (creditsUsed r) now s)))"
  using assms by (simp add: post_generate_scene_def Let_def)

lemma video_endpoint_success:
  assumes "truthy (sceneImageUrl req)" "truthy (videoPrompt req)"
    "video_outcome (generateVideo cenv penv lat) = Inr r"
  shows "post_generate_video cenv penv lat now req s =
           (charge (videoCreditsUsed r) now s,
            VideoReply (videoUrl r) (generationId r) (videoCreditsUsed r)
              (STARTING_CREDITS - creditsUsedTotal (charge (videoCreditsUsed r) now s)))"
  using assms by (simp add: post_generate_video_def Let_def)



text \<open>
  Claim C5, amended. While the prior total is not negative and the new total does not
  exceed \<open>2 ^ 53\<close>, charging a positive amount \<open>c\<close> adds it to the running total
  and persists the record, and \<^verbatim>\<open>loadCredits\<close> on the persisted file, as run at the next
  start of the process, yields the prior total plus \<open>c\<close>. The same holds for the state
  either generation endpoint leaves after a successful call that reports a positive
  count. A missing file, and a file that cannot be read or parsed, load as 0.
\<close>

theorem ledger_round_trip:
  "(0 \<le> creditsUsedTotal s \<and> 0 < c \<and> creditsUsedTotal s + c \<le> 2 ^ 53 \<longrightarrow>
      creditsUsedTotal (charge c now s) = creditsUsedTotal s + c \<and>
      loadCredits (credits_file (charge c now s)) = JNum (creditsUsedTotal s + c)) \<and>
   (portraitA req \<noteq> None \<and> portraitB req \<noteq> None \<and> truthy (scenario req) \<and>
    result (generateScene env) = Inr r \<and>
    0 \<le> creditsUsedTotal s \<and> 0 < creditsUsed r \<and>
    creditsUsedTotal s + creditsUsed r \<le> 2 ^ 53 \<longrightarrow>
      loadCredits (credits_file (fst (post_generate_scene env now req s))) =
        JNum (creditsUsedTotal s + creditsUsed r)) \<and>
   (truthy (sceneImageUrl vreq) \<and> truthy (videoPrompt vreq) \<and>
    video_outcome (generateVideo cenv penv lat) = Inr v \<and>
    0 \<le> creditsUsedTotal s \<and> 0 < videoCreditsUsed v \<and>
    creditsUsedTotal s + videoCreditsUsed v \<le> 2 ^ 53 \<longrightarrow>
      loadCredits (credits_file (fst (post_generate_video cenv penv lat now vreq s))) =
        JNum (creditsUsedTotal s + videoCreditsUsed v)) \<and>
   loadCredits Absent = JNum 0 \<and> loadCredits Unreadable = JNum 0"
proof (intro conjI impI; (elim conjE)?)
  assume "0 \<le> creditsUsedTotal s" "0 < c" "creditsUsedTotal s + c \<le> 2 ^ 53"
  then show "creditsUsedTotal (charge c now s) = creditsUsedTotal s + c"
    by (simp add: charge_total js_add_safe)
next
  assume "0 \<le> creditsUsedTotal s" "0 < c" "creditsUsedTotal s + c \<le> 2 ^ 53"
  then show "loadCredits (credits_file (charge c now s)) = JNum (creditsUsedTotal s + c)"
    by (simp add: load_after_charge js_add_safe)
next
  assume "portraitA req \<noteq> None" "portraitB req \<noteq> None" "truthy (scenario req)"
    "result (generateScene env) = Inr r"
    "0 \<le> creditsUsedTotal s" "0 < creditsUsed r" "creditsUsedTotal s + creditsUsed r \<le> 2 ^ 53"
  then show "loadCredits (credits_file (fst (post_generate_scene env now req s))) =
        JNum (creditsUsedTotal s + creditsUsed r)"
    by (simp add: scene_endpoint_success load_after_charge js_add_safe)
next
  assume "truthy (sceneImageUrl vreq)" "truthy (videoPrompt vreq)"
    "video_outcome (generateVideo cenv penv lat) = Inr v"
    "0 \<le> creditsUsedTotal s" "0 < videoCreditsUsed v"
    "creditsUsedTotal s + videoCreditsUsed v \<le> 2 ^ 53"
  then show "loadCredits (credits_file (fst (post_generate_video cenv penv lat now vreq s))) =
        JNum (creditsUsedTotal s + videoCreditsUsed v)"
    by (simp add: video_endpoint_success load_after_charge js_add_safe)
next
  show "loadCredits Absent = JNum 0" by (simp add: loadCredits_def)
next
  show "loadCredits Unreadable = JNum 0" by (simp add: loadCredits_def)
qed

lemma generateVideo_first_poll_completed:
  assumes "create_try (cenv 0) = Returned g" "penv 0 = Resolved r" "ok r" "json_body r = Inr d"
    "job_status d = ''completed''" "video_url d = Some u" "u \<noteq> []"
  shows "generateVideo cenv penv lat =
           \<lparr>video_outcome = Inr \<lparr>videoUrl = u, generationId = g,
                                 videoCreditsUsed = credits_or_zero (poll_credits_used d)\<rparr>,
            create_attempts = 1, create_slept = [], video_poll_times = [10000]\<rparr>"
  using assms
  by (simp add: generateVideo_def create_first_success poll_loop_step poll_once_completed
        TIMEOUT_MS_def POLL_INTERVAL_MS_def)

lemma example_scene_run:
  "generateScene (always (Resolved (scene_answer ''https://example/scene.png'' used))) =
     \<lparr>result = Inr \<lparr>imageUrl = ''https://example/scene.png'', creditsUsed = credits_or_zero used\<rparr>,
      attempts = 1, slept = []\<rparr>"
  by (rule generateScene_first_success) (simp add: always_def scene_answer_returned)

lemma example_video_run:
  "generateVideo (always (Resolved (created_answer ''job-1'')))
       (always (Resolved (poll_answer ''completed'' (Some ''https://example/video.mp4'') used)))
       (always 0) =
     \<lparr>video_outcome = Inr \<lparr>videoUrl = ''https://example/video.mp4'', generationId = ''job-1'',
                            videoCreditsUsed = credits_or_zero used\<rparr>,
      create_attempts = 1, create_slept = [], video_poll_times = [10000]\<rparr>"
  using generateVideo_first_poll_completed
          [of "always (Resolved (created_answer ''job-1''))" "''job-1''"
              "always (Resolved (poll_answer ''completed'' (Some ''https://example/video.mp4'') used))"
              "poll_answer ''completed'' (Some ''https://example/video.mp4'') used"
              "\<lparr>job_status = ''completed'', video_url = Some ''https://example/video.mp4'',
                poll_credits_used = used, error_message = None\<rparr>"
              "''https://example/video.mp4''" "always 0"]
  by (simp add: always_def created_answer_returned poll_answer_def ok_def)

theorem ledger_round_trip_witness:
  "loadCredits (credits_file (charge 1000 ''2026-01-01T00:00:00.000Z''
       \<lparr>creditsUsedTotal = 0, credits_file = Absent\<rparr>)) = JNum 1000 \<and>
   loadCredits (credits_file (fst (post_generate_scene
       (always (Resolved (scene_answer ''https://example/scene.png'' (Some 120))))
       ''2026-01-01T00:00:00.000Z''
       \<lparr>portraitA = Some ''a.png'', portraitB = Some ''b.png'', scenario = Some ''office''\<rparr>
       \<lparr>creditsUsedTotal = 1000, credits_file = Unreadable\<rparr>))) = JNum 1120 \<and>
   loadCredits (credits_file (fst (post_generate_video
       (always (Resolved (created_answer ''job-1'')))
       (always (Resolved (poll_answer ''completed'' (Some ''https://example/video.mp4'') (Some 250))))
       (always 0) ''2026-01-01T00:00:00.000Z''
       \<lparr>sceneImageUrl = Some ''https://example/scene.png'', videoPrompt = Some ''they talk''\<rparr>
       \<lparr>creditsUsedTotal = 1120, credits_file = Absent\<rparr>))) = JNum 1370"
  using ledger_round_trip
          [where c = 1000 and now = "''2026-01-01T00:00:00.000Z''"
             and s = "\<lparr>creditsUsedTotal = 0, credits_file = Absent\<rparr>", THEN conjunct1]
        ledger_round_trip
          [where env = "always (Resolved (scene_answer ''https://example/scene.png'' (Some 120)))"
             and now = "''2026-01-01T00:00:00.000Z''"
             and req = "\<lparr>portraitA = Some ''a.png'', portraitB = Some ''b.png'', scenario = Some ''office''\<rparr>"
             and s = "\<lparr>creditsUsedTotal = 1000, credits_file = Unreadable\<rparr>"
             and r = "\<lparr>imageUrl = ''https://example/scene.png'', creditsUsed = 120\<rparr>",
           THEN conjunct2, THEN conjunct1]
        ledger_round_trip
          [where cenv = "always (Resolved (created_answer ''job-1''))"
             and penv = "always (Resolved (poll_answer ''completed'' (Some ''https://example/video.mp4'') (Some 250)))"
             and lat = "always 0"
             and now = "''2026-01-01T00:00:00.000Z''"
             and vreq = "\<lparr>sceneImageUrl = Some ''https://example/scene.png'', videoPrompt = Some ''they talk''\<rparr>"
             and s = "\<lparr>creditsUsedTotal = 1120, credits_file = Absent\<rparr>"
             and v = "\<lparr>videoUrl = ''https://example/video.mp4'', generationId = ''job-1'',
                       videoCreditsUsed = 250\<rparr>",
           THEN conjunct2, THEN conjunct2, THEN conjunct1]
  by (simp add: example_scene_run example_video_run credits_or_zero_def)

text \<open>
  With \<open>2 ^ 53 = 9007199254740992\<close> credits consumed, a video that costs 1 credit is
  generated: the sum is rounded back to \<open>2 ^ 53\<close>, so the total, the persisted record
  and the total loaded at the next start all stay at \<open>2 ^ 53\<close> and the charge is lost.
\<close>

theorem charge_lost_beyond_safe_range:
  "creditsUsedTotal (fst (post_generate_video
       (always (Resolved (created_answer ''job-1'')))
       (always (Resolved (poll_answer ''completed'' (Some ''https://example/video.mp4'') (Some 1))))
       (always 0) ''2026-01-01T00:00:00.000Z''
       \<lparr>sceneImageUrl = Some ''https://example/scene.png'', videoPrompt = Some ''they talk''\<rparr>
       \<lparr>creditsUsedTotal = 9007199254740992, credits_file = Absent\<rparr>)) = 9007199254740992 \<and>
   loadCredits (credits_file (fst (post_generate_video
       (always (Resolved (created_answer ''job-1'')))
       (always (Resolved (poll_answer ''completed'' (Some ''https://example/video.mp4'') (Some 1))))
       (always 0) ''2026-01-01T00:00:00.000Z''
       \<lparr>sceneImageUrl = Some ''https://example/scene.png'', videoPrompt = Some ''they talk''\<rparr>
       \<lparr>creditsUsedTotal = 9007199254740992, credits_file = Absent\<rparr>))) =
     JNum 9007199254740992 \<and>
   (9007199254740992 :: int) + 1 \<noteq> 9007199254740992"
  by (simp add: post_generate_video_def example_video_run credits_or_zero_def charge_def
        js_add_def to_double_rounds saveCredits_def loadCredits_def)





lemma scene_try_no_usage:
  assumes "scene_try (Resolved rsp) = Returned r" "json_body rsp = Inr d"
    "scene_credits_used d = None \<or> scene_credits_used d = Some 0"
  shows "creditsUsed r = 0"
  using assms
  by (auto simp: scene_try_def credits_or_zero_def split: if_splits option.splits)

lemma poll_once_no_usage:
  assumes "poll_once (Resolved rsp) gid errs = Done v" "json_body rsp = Inr d"
    "poll_credits_used d = None \<or> poll_credits_used d = Some 0"
  shows "videoCreditsUsed v = 0"
proof -
  have "poll_try (Resolved rsp) gid errs = PReturned v"
    using assms(1)
    by (auto simp: poll_once_def poll_catch_def split: poll_tried.splits if_splits)
  then show ?thesis
    using assms(2,3)
    by (auto simp: poll_try_def credits_or_zero_def split: if_splits option.splits)
qed

text \<open>
  Claim C10. When the service call of a generation endpoint succeeds with
  \<^verbatim>\<open>creditsUsed\<close> equal to 0, the endpoint leaves the server state as it was (the total
  and the credits file alike) and replies with success, 0 credits used and the unchanged
  remaining credits. A successful answer without usage metadata yields
  \<^verbatim>\<open>creditsUsed = 0\<close> in both services.
\<close>

theorem zero_credits_leave_ledger_untouched:
  "(portraitA req \<noteq> None \<and> portraitB req \<noteq> None \<and> truthy (scenario req) \<and>
    result (generateScene env) = Inr r \<and> creditsUsed r = 0 \<longrightarrow>
      post_generate_scene env now req s =
        (s, SceneReply (imageUrl r) 0 (STARTING_CREDITS - creditsUsedTotal s))) \<and>
   (truthy (sceneImageUrl vreq) \<and> truthy (videoPrompt vreq) \<and>
    video_outcome (generateVideo cenv penv lat) = Inr v \<and> videoCreditsUsed v = 0 \<longrightarrow>
      post_generate_video cenv penv lat now vreq s =
        (s, VideoReply (videoUrl v) (generationId v) 0 (STARTING_CREDITS - creditsUsedTotal s))) \<and>
   (scene_try (Resolved srsp) = Returned r' \<and> json_body srsp = Inr sd \<and>
    scene_credits_used sd = None \<longrightarrow> creditsUsed r' = 0) \<and>
   (poll_once (Resolved prsp) gid errs = Done v' \<and> json_body prsp = Inr pd \<and>
    poll_credits_used pd = None \<longrightarrow> videoCreditsUsed v' = 0)"
  using scene_endpoint_success [of req env r now s]
        video_endpoint_success [of vreq cenv penv lat v now s]
        scene_try_no_usage [of srsp r' sd]
        poll_once_no_usage [of prsp gid errs v' pd]
  by (simp add: charge_zero)

theorem zero_credits_leave_ledger_untouched_witness:
  "post_generate_scene
       (always (Resolved (scene_answer ''https://example/scene.png'' None)))
       ''2026-01-01T00:00:00.000Z''
       \<lparr>portraitA = Some ''a.png'', portraitB = Some ''b.png'', scenario = Some ''office''\<rparr>
       \<lparr>creditsUsedTotal = 1000, credits_file = Absent\<rparr> =
     (\<lparr>creditsUsedTotal = 1000, credits_file = Absent\<rparr>,
      SceneReply ''https://example/scene.png'' 0 19999000) \<and>
   post_generate_video
       (always (Resolved (created_answer ''job-1'')))
       (always (Resolved (poll_answer ''completed'' (Some ''https://example/video.mp4'') None)))
       (always 0) ''2026-01-01T00:00:00.000Z''
       \<lparr>sceneImageUrl = Some ''https://example/scene.png'', videoPrompt = Some ''they talk''\<rparr>
       \<lparr>creditsUsedTotal = 1000, credits_file = Unreadable\<rparr> =
     (\<lparr>creditsUsedTotal = 1000, credits_file = Unreadable\<rparr>,
      VideoReply ''https://example/video.mp4'' ''job-1'' 0 19999000)"
  using zero_credits_leave_ledger_untouched
          [where env = "always (Resolved (scene_answer ''https://example/scene.png'' None))"
             and now = "''2026-01-01T00:00:00.000Z''"
             and req = "\<lparr>portraitA = Some ''a.png'', portraitB = Some ''b.png'', scenario = Some ''office''\<rparr>"
             and s = "\<lparr>creditsUsedTotal = 1000, credits_file = Absent\<rparr>"
             and r = "\<lparr>imageUrl = ''https://example/scene.png'', creditsUsed = 0\<rparr>",
           THEN conjunct1]
        zero_credits_leave_ledger_untouched
          [where cenv = "always (Resolved (created_answer ''job-1''))"
             and penv = "always (Resolved (poll_answer ''completed'' (Some ''https://example/video.mp4'') None))"
             and lat = "always 0"
             and now = "''2026-01-01T00:00:00.000Z''"
             and vreq = "\<lparr>sceneImageUrl = Some ''https://example/scene.png'', videoPrompt = Some ''they talk''\<rparr>"
             and s = "\<lparr>creditsUsedTotal = 1000, credits_file = Unreadable\<rparr>"
             and v = "\<lparr>videoUrl = ''https://example/video.mp4'', generationId = ''job-1'',
                       videoCreditsUsed = 0\<rparr>",
           THEN conjunct2, THEN conjunct1]
  by (simp add: example_scene_run example_video_run credits_or_zero_def STARTING_CREDITS_def)

section \<open>The three orchestrators when the video stage fails\<close>

lemma processConversation_video_failure:
  assumes "validatePortraits (file_exists env) (in_portraitA inp) (in_portraitB inp) = None"
    "file_exists env (outputDir env) \<or> mkdir_throws env = None"
    "scene_stage env = Inr sc"
    "saveIntermediateScene opts = Some False \<or> saveImage_throws env = None"
    "video_stage env = Inl e"
  shows "processConversation env inp opts =
           \<lparr>success = False, videoPath = None, scenePath = None, error = Some e,
            sceneGenerationMs = since env 3 2, videoGenerationMs = 0, totalMs = since env 5 0\<rparr>"
  using assms by (auto simp: processConversation_def failure_def Let_def)

text \<open>
  In the web server's job the scene is published under \<^verbatim>\<open>scenePath\<close> when stage 1 is
  done, and the update that starts stage 2 already replaces that record by one without
  it; a failure of the video stage then leaves the error record, without it as well.
\<close>

lemma scene_published_then_replaced:
  "scene_published gid gens gid =
     Some \<lparr>g_status = Scene, g_progress = ''Scene generated! Starting video generation...'',
           g_scenePath = Some (''/output/scene_'' @ gid @ ''.png''), g_videoPath = None,
           g_error = None\<rparr>"
  "video_started gid (scene_published gid gens) gid =
     Some \<lparr>g_status = Video, g_progress = ''Generating video with Veo 3.1...'',
           g_scenePath = None, g_videoPath = None, g_error = None\<rparr>"
  by (simp_all add: scene_published_def video_started_def update_def)

lemma processGeneration_video_failure:
  assumes "scene_phase env = Inr ()" "video_phase env = Inl e"
  shows "processGeneration gid env gens =
           gens(gid \<mapsto> \<lparr>g_status = Error, g_progress = ''Generation failed'',
                         g_scenePath = None, g_videoPath = None,
                         g_error = Some (message_of e)\<rparr>)"
  using assms
  by (simp add: processGeneration_def job_failed_def scene_published_def video_started_def
        update_def Let_def)

text \<open>
  The React client keeps what stage 1 delivered: when the scene call has succeeded and
  the video call fails, by a rejection or by an error reply, the run ends in the error
  state with the message, and \<^verbatim>\<open>sceneImageUrl\<close> still holds the scene.
\<close>

lemma client_keeps_scene_on_video_failure:
  assumes "videoRes = Inl m \<or> videoRes = Inr (Reply500 m) \<or> videoRes = Inr (Reply400 m)"
    "m \<noteq> []"
  shows "app_status (handleGenerate (Inr (SceneReply u c r)) videoRes a) = Failed"
    and "app_sceneImageUrl (handleGenerate (Inr (SceneReply u c r)) videoRes a) = Some u"
    and "app_error (handleGenerate (Inr (SceneReply u c r)) videoRes a) = Some m"
  using assms by (auto simp: handleGenerate_def caught_def or_default_def Let_def)

text \<open>
  Claim C4. The code at a run in which the scene stage succeeds and the video stage
  fails. \<^verbatim>\<open>processConversation\<close> saves the scene as \<^verbatim>\<open>output/scene.png\<close>, the video
  stage throws, and the result is in the error state with the message but has no
  \<^verbatim>\<open>scenePath\<close>, where the same run with a successful video stage reports it. In
  \<^verbatim>\<open>processGeneration\<close> the scene is published as \<^verbatim>\<open>/output/scene_1700000000000.png\<close>,
  and the record left after the video stage has thrown has no \<^verbatim>\<open>scenePath\<close>. The
  client's \<^verbatim>\<open>handleGenerate\<close>, given a scene reply and then a 500 reply of the video
  endpoint, ends in the error state with the scene URL kept.
\<close>

theorem video_failure_drops_scene_reference:
  "processConversation
       \<lparr>file_exists = always True, path_join = plain_join, outputDir = ''output'',
        mkdir_throws = None,
        scene_stage = Inr \<lparr>imageData = ''iVBORw0KGgo='', mimeType = ''image/png''\<rparr>,
        saveImage_throws = None, video_stage = Inl ''Video generation timed out'',
        clock = ticking 1700000000000 1000\<rparr>
       \<lparr>in_portraitA = ''alice.jpg'', in_portraitB = ''bob.jpg'',
        in_scenario = ''Two colleagues in an office'', in_outputPath = None\<rparr>
       \<lparr>saveIntermediateScene = None, opt_scenePath = Some ''output/scene.png''\<rparr> =
     \<lparr>success = False, videoPath = None, scenePath = None,
      error = Some ''Video generation timed out'',
      sceneGenerationMs = 1000, videoGenerationMs = 0, totalMs = 5000\<rparr> \<and>
   scenePath (processConversation
       \<lparr>file_exists = always True, path_join = plain_join, outputDir = ''output'',
        mkdir_throws = None,
        scene_stage = Inr \<lparr>imageData = ''iVBORw0KGgo='', mimeType = ''image/png''\<rparr>,
        saveImage_throws = None,
        video_stage = Inr \<lparr>out_videoPath = ''output/talk.mp4'', durationMs = 90000\<rparr>,
        clock = ticking 1700000000000 1000\<rparr>
       \<lparr>in_portraitA = ''alice.jpg'', in_portraitB = ''bob.jpg'',
        in_scenario = ''Two colleagues in an office'', in_outputPath = None\<rparr>
       \<lparr>saveIntermediateScene = None, opt_scenePath = Some ''output/scene.png''\<rparr>) =
     Some ''output/scene.png'' \<and>
   scene_published ''1700000000000'' Map.empty ''1700000000000'' =
     Some \<lparr>g_status = Scene, g_progress = ''Scene generated! Starting video generation...'',
           g_scenePath = Some ''/output/scene_1700000000000.png'', g_videoPath = None,
           g_error = None\<rparr> \<and>
   processGeneration ''1700000000000''
       \<lparr>read_portraits_throws = None, generateContent = Inr [None, Some ''iVBORw0KGgo=''],
        write_scene_throws = None, generateVideos = Inl ''quota exceeded'',
        getVideosOperation = always (Inl ''unused''), download_throws = None,
        unlink_throws = None\<rparr> Map.empty ''1700000000000'' =
     Some \<lparr>g_status = Error, g_progress = ''Generation failed'', g_scenePath = None,
           g_videoPath = None, g_error = Some ''quota exceeded''\<rparr> \<and>
   handleGenerate (Inr (SceneReply ''https://example/scene.png'' 120 19999880))
       (Inr (Reply500 ''Video generation timed out after 300s''))
       \<lparr>app_status = Idle, app_sceneImageUrl = None, app_videoUrl = None, app_error = None,
        app_statusMessage = [],
        app_credits = \<lparr>v_startingCredits = 20000000, v_creditsUsed = 0,
                        v_creditsRemaining = 20000000\<rparr>\<rparr> =
     \<lparr>app_status = Failed, app_sceneImageUrl = Some ''https://example/scene.png'',
      app_videoUrl = None, app_error = Some ''Video generation timed out after 300s'',
      app_statusMessage = [],
      app_credits = \<lparr>v_startingCredits = 20000000, v_creditsUsed = 120,
                      v_creditsRemaining = 19999880\<rparr>\<rparr>"
  by (simp add: processConversation_def failure_def validatePortraits_def always_def since_def
        ticking_def or_default_def processGeneration_def job_failed_def update_def
        scene_published_def video_started_def scene_phase_def video_phase_def message_of_def
        handleGenerate_def caught_def note_credits_def Let_def)

text \<open>
  Read off the runs above: the pipeline's failure result names no scene, the client's
  error state does.
\<close>

theorem video_failure_drops_scene_reference_witness:
  "scenePath (processConversation
       \<lparr>file_exists = always True, path_join = plain_join, outputDir = ''output'',
        mkdir_throws = None,
        scene_stage = Inr \<lparr>imageData = ''iVBORw0KGgo='', mimeType = ''image/png''\<rparr>,
        saveImage_throws = None, video_stage = Inl ''Video generation timed out'',
        clock = ticking 1700000000000 1000\<rparr>
       \<lparr>in_portraitA = ''alice.jpg'', in_portraitB = ''bob.jpg'',
        in_scenario = ''Two colleagues in an office'', in_outputPath = None\<rparr>
       \<lparr>saveIntermediateScene = None, opt_scenePath = Some ''output/scene.png''\<rparr>) = None \<and>
   app_sceneImageUrl (handleGenerate (Inr (SceneReply ''https://example/scene.png'' 120 19999880))
       (Inr (Reply500 ''Video generation timed out after 300s''))
       \<lparr>app_status = Idle, app_sceneImageUrl = None, app_videoUrl = None, app_error = None,
        app_statusMessage = [],
        app_credits = \<lparr>v_startingCredits = 20000000, v_creditsUsed = 0,
                        v_creditsRemaining = 20000000\<rparr>\<rparr>) =
     Some ''https://example/scene.png''"
  using video_failure_drops_scene_reference by simp

end
